theory Spec2Isabelle
  imports Complex_Main
begin

section \<open>Data model (types.ts, db/index.ts)\<close>

text \<open>
  A job descriptor of the scheduler. The two optional fields are absent in the
  registry literal of the client and are written by \<open>processNextTask\<close>.
  Times are milliseconds since the epoch, as \<open>Date.now()\<close> returns them.
\<close>

record TaskPriority =
  name :: string
  priority :: int
  minInterval :: int
  lastRun :: "int option"
  isRunning :: "bool option"

record IComment =
  comment_id :: string
  comment_user :: string
  comment_message :: string
  comment_handle :: "string option"
  comment_avatar :: "string option"

text \<open>A gift as \<open>processGift\<close> reads it (the parameter is typed \<open>any\<close> in the source).\<close>

record Gift =
  gift_id :: string
  giftName :: string
  giftCount :: string
  coinsTotal :: string
  senderPublicKey :: string
  gift_handle :: "string option"
  gift_avatar :: "string option"

record TopLiker =
  publicKey :: string
  likeCount :: int
  liker_handle :: "string option"
  pfp :: "string option"

record RoomMessage =
  message_id :: string
  message_agentId :: string
  agentName :: string
  message_text :: string

text \<open>The outbound response record. The \<open>id\<close> field, a UUID derived from the agent id
  and the clock by a library function, is left out.\<close>

record AIResponse =
  response_text :: "string option"
  agentId :: string
  replyToUser :: "string option"
  replyToMessageId :: "string option"
  replyToMessage :: "string option"
  replyToPfp :: "string option"
  replyToHandle :: "string option"
  thought :: "bool option"
  isGiftResponse :: "bool option"
  giftId :: "string option"
  isTopLikerResponse :: "bool option"
  animation :: "string option"
  audioUrl :: "string option"

definition emptyResponse :: "string \<Rightarrow> string option \<Rightarrow> AIResponse" where
  "emptyResponse aid t =
     \<lparr>response_text = t, agentId = aid, replyToUser = None, replyToMessageId = None,
      replyToMessage = None, replyToPfp = None, replyToHandle = None, thought = None,
      isGiftResponse = None, giftId = None, isTopLikerResponse = None, animation = None,
      audioUrl = None\<rparr>"

text \<open>A memory handed to the message manager: the user it is filed under and its text.\<close>

record Memory =
  memory_user :: string
  memory_text :: string

text \<open>The object parsed out of a generated JSON block, and the content returned by
  \<open>generateMessageResponse\<close>.\<close>

record parsedResponse =
  parsed_text :: "string option"
  parsed_animation :: "string option"

record Content =
  content_text :: "string option"
  content_animation :: "string option"

text \<open>The part of the agent runtime that the jobs read.\<close>

record runtime =
  rt_agentId :: string
  characterName :: string
  isInChat :: bool

section \<open>Errors, effects and the outcomes of the collaborators\<close>

datatype error = ReferenceError string | TypeError string | Error string

datatype template =
    aikoSelectCommentTemplate
  | aikoMessageHandlerTemplate
  | aikoMessageAnimationTemplate
  | aikoGiftResponseTemplate
  | aikoTopLikerTemplate
  | aikoAnimationTemplate
  | freshThoughtTemplate
  | roomChatTemplate

text \<open>
  What a job does to the outside world, in order: the calls to the Generation Service,
  the Speech Service, the memory store and the Data Gateway, and the lines written with
  \<open>console.warn\<close> and \<open>console.error\<close> (informational \<open>console.log\<close> lines are
  not recorded). A console line is recorded by its fixed text, without the agent prefix
  and without the values printed after it.
\<close>

datatype effect =
    ConsoleWarn string
  | ConsoleError string
  | ComposeState
  | GenerateText template
  | GenerateMessageResponse
  | GenerateSpeech "string option"
  | CreateMemory Memory
  | EnsureConnection string
  | DatabaseLog
  | GetUnreadComments int
  | MarkCommentsAsRead "string list"
  | GetUnreadGifts
  | MarkGiftsAsRead "string list"
  | GetTopLikers string
  | FetchRoomMessages
  | PostRoomMessage "string option" "string option"
  | PostAIResponse AIResponse
  | PostUpdateAnimation string
  | PutScene

text \<open>
  What a call of \<open>generateSpeech\<close> meets: the speech service throws; or the upload is
  answered with a status other than 201 and a body; or the upload request fails; or the
  upload is answered 201 and the audio is at the public URL built from the file name.
\<close>

datatype speech =
    SynthesisFailed error
  | UploadRefused int string
  | UploadError error
  | Uploaded string

text \<open>The result of \<open>fetch\<close> and of reading the reply: the request fails or the body
  is not JSON, or a reply arrives with a status and a JSON body.\<close>

datatype 'a http = Unreachable error | Reply int 'a

definition ok :: "int \<Rightarrow> bool" where
  "ok status = (200 \<le> status \<and> status \<le> 299)"

text \<open>
  The outcomes of the external collaborators during one job invocation. A job is a
  function of these outcomes; an outcome \<open>Inl e\<close> is the collaborator throwing \<open>e\<close>.
  The client imports \<open>fetchRoomMessages\<close> and \<open>postRoomMessage\<close> from the gateway
  module, which does not define them in the sources at hand: like the runtime, the
  Generation Service and the Speech Service, they are known by their outcomes only.
\<close>

record world =
  w_composeState :: "error + unit"
  w_generateText :: "template \<Rightarrow> error + string"
  w_generateMessageResponse :: "error + Content option"
  w_parseJSONObjectFromText :: "string \<Rightarrow> parsedResponse option"
  w_generateSpeech :: "string option \<Rightarrow> speech"
  w_createMemory :: "error + unit"
  w_ensureConnection :: "error + unit"
  w_databaseLog :: "error + unit"
  w_random :: "nat \<Rightarrow> real"
  w_now :: int
  w_postAIResponse :: "unit http"
  w_postUpdateAnimation :: "unit http"
  w_putScene :: "bool http"
  w_getUnreadComments :: "IComment list option http"
  w_getUnreadGifts :: "Gift list option http"
  w_getTopLikers :: "TopLiker list option http"
  w_markCommentsAsRead :: "unit http"
  w_markGiftsAsRead :: "unit http"
  w_fetchRoomMessages :: "error + bool \<times> RoomMessage list option"
  w_postRoomMessage :: "error + unit"

text \<open>A computation: the effects it performed, then the exception it threw or the
  value it returned.\<close>

type_synonym 'a io = "effect list \<times> (error + 'a)"

definition ret :: "'a \<Rightarrow> 'a io" where
  "ret v = ([], Inr v)"

definition emit :: "effect \<Rightarrow> unit io" where
  "emit ef = ([ef], Inr ())"

definition call :: "effect \<Rightarrow> error + 'a \<Rightarrow> 'a io" where
  "call ef outcome = ([ef], outcome)"

definition io_bind :: "'a io \<Rightarrow> ('a \<Rightarrow> 'b io) \<Rightarrow> 'b io" where
  "io_bind m f =
     (case snd m of
        Inl e \<Rightarrow> (fst m, Inl e)
      | Inr v \<Rightarrow> (fst m @ fst (f v), snd (f v)))"

definition try_catch :: "'a io \<Rightarrow> (error \<Rightarrow> 'a io) \<Rightarrow> 'a io" where
  "try_catch m h =
     (case snd m of
        Inl e \<Rightarrow> (fst m @ fst (h e), snd (h e))
      | Inr v \<Rightarrow> m)"

definition fetch :: "effect \<Rightarrow> 'a http \<Rightarrow> (int \<times> 'a) io" where
  "fetch ef r = (case r of Unreachable e \<Rightarrow> ([ef], Inl e) | Reply s b \<Rightarrow> ([ef], Inr (s, b)))"

section \<open>The task scheduler (class AikoClient)\<close>

definition task :: "string \<Rightarrow> int \<Rightarrow> int \<Rightarrow> TaskPriority" where
  "task n p m = \<lparr>name = n, priority = p, minInterval = m, lastRun = None, isRunning = None\<rparr>"

definition taskQueue :: "TaskPriority list" where
  "taskQueue =
     [task ''readGifts'' 1 (1000 * 25),
      task ''readChatAndReply'' 2 (1000 * 20),
      task ''readAndRespondToTopLikers'' 3 (1000 * 90),
      task ''generateFreshThought'' 4 (1000 * 30 * 1),
      task ''readAgentChatAndReply'' 4 (1000 * 60 * 1),
      task ''generatePeriodicAnimation'' 5 (1000 * 20),
      task ''heartbeat'' 5 (1000 * 5)]"

text \<open>\<open>task.lastRun || 0\<close>: an absent \<open>lastRun\<close>, like a \<open>lastRun\<close> of 0, reads as 0.\<close>

definition lastRunOrZero :: "int option \<Rightarrow> int" where
  "lastRunOrZero l = (case l of None \<Rightarrow> 0 | Some t \<Rightarrow> (if t = 0 then 0 else t))"

text \<open>The truth value of the optional flag: absent counts as false.\<close>

definition running :: "TaskPriority \<Rightarrow> bool" where
  "running t = (case isRunning t of None \<Rightarrow> False | Some b \<Rightarrow> b)"

text \<open>The predicate passed to \<open>taskQueue.find\<close>.\<close>

definition eligible :: "int \<Rightarrow> TaskPriority \<Rightarrow> bool" where
  "eligible now t =
     (let timeElapsed = now - lastRunOrZero (lastRun t)
      in \<not> running t \<and> timeElapsed \<ge> minInterval t)"

text \<open>\<open>Array.prototype.find\<close> returns the first matching element; the element is an
  object of the array that is then updated in place, so the model returns its position.\<close>

fun findIndex :: "('a \<Rightarrow> bool) \<Rightarrow> 'a list \<Rightarrow> nat option" where
  "findIndex P [] = None"
| "findIndex P (x # xs) = (if P x then Some 0 else map_option Suc (findIndex P xs))"

text \<open>
  \<open>processNextTask\<close> up to the call of the job body: read the clock, find the eligible
  task, return if there is none, otherwise set its flag. The result is the registry and
  the position of the task whose body is to run.
\<close>

definition startTask :: "int \<Rightarrow> TaskPriority list \<Rightarrow> TaskPriority list \<times> nat option" where
  "startTask now q =
     (case findIndex (eligible now) q of
        None \<Rightarrow> (q, None)
      | Some i \<Rightarrow> (q[i := (q ! i)\<lparr>isRunning := Some True\<rparr>], Some i))"

text \<open>How the awaited job body settles.\<close>

datatype outcome = Returned | Thrown error

text \<open>
  The \<open>catch\<close> and \<open>finally\<close> blocks of \<open>processNextTask\<close> for the task at position
  \<open>i\<close>, when its body has settled and the clock reads \<open>done\<close>: log the error if there
  is one, then assign \<open>lastRun\<close>, then assign \<open>isRunning\<close>.
\<close>

definition catchBlock :: "TaskPriority \<Rightarrow> outcome \<Rightarrow> effect list" where
  "catchBlock t out =
     (case out of
        Returned \<Rightarrow> []
      | Thrown e \<Rightarrow> [ConsoleError (''Error executing task '' @ name t @ '':'')])"

definition setLastRun :: "nat \<Rightarrow> int \<Rightarrow> TaskPriority list \<Rightarrow> TaskPriority list" where
  "setLastRun i done q = q[i := (q ! i)\<lparr>lastRun := Some done\<rparr>]"

definition clearRunning :: "nat \<Rightarrow> TaskPriority list \<Rightarrow> TaskPriority list" where
  "clearRunning i q = q[i := (q ! i)\<lparr>isRunning := Some False\<rparr>]"

definition finishTask :: "nat \<Rightarrow> outcome \<Rightarrow> int \<Rightarrow> TaskPriority list \<Rightarrow> effect list \<times> TaskPriority list" where
  "finishTask i out done q = (catchBlock (q ! i) out, clearRunning i (setLastRun i done q))"

text \<open>
  The timer and the job bodies interleave: \<open>setInterval\<close> calls \<open>processNextTask\<close>
  every second and does not wait for the promise it returns, and a job body is suspended
  while it awaits the network. An event is either a timer tick at a clock reading, which
  runs \<open>processNextTask\<close> up to the suspension of the job body, or the settling of the
  body of an outstanding task, which runs the rest of that call.
\<close>

datatype event = Tick int | Settle nat outcome int

record scheduler =
  queue :: "TaskPriority list"
  outstanding :: "nat list"
  console :: "effect list"

definition boot :: scheduler where
  "boot = \<lparr>queue = taskQueue, outstanding = [], console = []\<rparr>"

fun step :: "scheduler \<Rightarrow> event \<Rightarrow> scheduler" where
  "step s (Tick now) =
     (case startTask now (queue s) of
        (q, None) \<Rightarrow> s
      | (q, Some i) \<Rightarrow> s\<lparr>queue := q, outstanding := outstanding s @ [i]\<rparr>)"
| "step s (Settle i out done) =
     (if i \<in> set (outstanding s)
      then s\<lparr>queue := snd (finishTask i out done (queue s)),
             outstanding := remove1 i (outstanding s),
             console := console s @ fst (finishTask i out done (queue s))\<rparr>
      else s)"

definition run :: "event list \<Rightarrow> scheduler" where
  "run evs = foldl step boot evs"

definition runningCount :: "TaskPriority list \<Rightarrow> nat" where
  "runningCount q = length (filter running q)"

section \<open>The Data Gateway (db/index.ts) and the Speech Service\<close>

definition throw :: "error \<Rightarrow> 'a io" where
  "throw e = ([], Inl e)"

text \<open>
  \<open>fetchUnreadComments\<close>: everything is inside one \<open>try\<close>; an absent \<open>since\<close> makes
  \<open>since.toISOString()\<close> throw before any request, a failed request or a status that is
  not ok throws too, and the \<open>catch\<close> logs and returns an empty batch. The result is the
  \<open>comments\<close> field of the returned object. A reply whose body does not parse as JSON
  counts as \<open>Unreachable\<close>.
\<close>

definition fetchUnreadComments :: "world \<Rightarrow> int option \<Rightarrow> IComment list option io" where
  "fetchUnreadComments w since =
     try_catch
       (case since of
          None \<Rightarrow> throw (TypeError ''Cannot read properties of undefined (reading toISOString)'')
        | Some t \<Rightarrow>
            io_bind (fetch (GetUnreadComments t) (w_getUnreadComments w)) (\<lambda>(status, data).
              if \<not> ok status then throw (Error ''HTTP error! status'')
              else ret data))
       (\<lambda>error.
          io_bind (emit (ConsoleError ''Error fetching unread comments:'')) (\<lambda>_.
          ret (Some [])))"

text \<open>\<open>markCommentsAsRead\<close> and \<open>markGiftsAsRead\<close>: a failed request is logged and
  answered with \<open>success: false\<close>, as is a status that is not ok; nothing is thrown.
  The result is the \<open>success\<close> field of the returned object.\<close>

definition markCommentsAsRead :: "world \<Rightarrow> string list \<Rightarrow> bool io" where
  "markCommentsAsRead w commentIds =
     try_catch
       (io_bind (fetch (MarkCommentsAsRead commentIds) (w_markCommentsAsRead w)) (\<lambda>(status, data).
          if \<not> ok status then ret False else ret True))
       (\<lambda>error.
          io_bind (emit (ConsoleError ''Error marking comments as read:'')) (\<lambda>_.
          ret False))"

definition markGiftsAsRead :: "world \<Rightarrow> string list \<Rightarrow> bool io" where
  "markGiftsAsRead w giftIds =
     try_catch
       (io_bind (fetch (MarkGiftsAsRead giftIds) (w_markGiftsAsRead w)) (\<lambda>(status, data).
          if \<not> ok status then ret False else ret True))
       (\<lambda>error.
          io_bind (emit (ConsoleError ''Error marking gifts as read:'')) (\<lambda>_.
          ret False))"

text \<open>\<open>fetchUnreadGifts\<close>: the result is the \<open>gifts\<close> field of the returned object,
  absent when the request failed.\<close>

definition fetchUnreadGifts :: "world \<Rightarrow> Gift list option io" where
  "fetchUnreadGifts w =
     try_catch
       (io_bind (fetch GetUnreadGifts (w_getUnreadGifts w)) (\<lambda>(status, data).
          if \<not> ok status then ret None else ret data))
       (\<lambda>error.
          io_bind (emit (ConsoleError ''Error fetching unread gifts:'')) (\<lambda>_.
          ret None))"

text \<open>\<open>fetchTopLikers\<close>: the result is the pair of the fields \<open>success\<close> and
  \<open>topLikers\<close>.\<close>

definition fetchTopLikers :: "world \<Rightarrow> string \<Rightarrow> (bool \<times> TopLiker list option) io" where
  "fetchTopLikers w timeframe =
     try_catch
       (io_bind (fetch (GetTopLikers timeframe) (w_getTopLikers w)) (\<lambda>(status, data).
          if \<not> ok status then ret (False, None) else ret (True, data)))
       (\<lambda>error.
          io_bind (emit (ConsoleError ''Error fetching top likers:'')) (\<lambda>_.
          ret (False, None)))"

text \<open>\<open>getRandomTopLiker\<close>, given the value that \<open>Math.random()\<close> returns: an index
  outside the array reads \<open>undefined\<close>.\<close>

definition getRandomTopLiker :: "real \<Rightarrow> TopLiker list \<Rightarrow> TopLiker option" where
  "getRandomTopLiker r topLikers =
     (if length topLikers = 0 then None
      else let randomIndex = \<lfloor>r * real (length topLikers)\<rfloor>
           in if 0 \<le> randomIndex \<and> nat randomIndex < length topLikers
              then Some (topLikers ! nat randomIndex) else None)"

text \<open>\<open>generateSpeech\<close> synthesises and uploads. An exception of the speech service
  leaves it as it is; a refused upload and a failed upload request are logged and reject
  the promise; an upload answered 201 resolves it with the public URL.\<close>

definition generateSpeech :: "world \<Rightarrow> string option \<Rightarrow> string io" where
  "generateSpeech w t =
     io_bind (emit (GenerateSpeech t)) (\<lambda>_.
     case w_generateSpeech w t of
       SynthesisFailed e \<Rightarrow> throw e
     | UploadRefused statusCode data \<Rightarrow>
         io_bind (emit (ConsoleError ''upload failed'')) (\<lambda>_.
         throw (Error (''Upload failed: '' @ data)))
     | UploadError e \<Rightarrow>
         io_bind (emit (ConsoleError ''upload error'')) (\<lambda>_.
         throw e)
     | Uploaded publicUrl \<Rightarrow> ret publicUrl)"

section \<open>The job bodies\<close>

subsection \<open>heartbeat\<close>

definition updateStreamingStatus :: "world \<Rightarrow> unit io" where
  "updateStreamingStatus w =
     try_catch
       (io_bind (fetch PutScene (w_putScene w)) (\<lambda>(status, success).
          if \<not> ok status then
            io_bind (emit (ConsoleError ''aiko: updateStreamingStatus: response'')) (\<lambda>_.
            throw (Error ''Failed to update streaming status''))
          else if \<not> success then throw (Error ''Failed to update streaming status'')
          else ret ()))
       (\<lambda>error.
          io_bind (emit (ConsoleError ''Failed to update streaming status:'')) (\<lambda>_.
          throw error))"

definition heartbeat :: "world \<Rightarrow> unit io" where
  "heartbeat w = updateStreamingStatus w"

subsection \<open>readGifts and processGift\<close>

text \<open>The value of \<open>shouldTranscribe\<close> is a number for the special gift and a boolean
  otherwise; both uses of it test its truth value.\<close>

datatype jsval = Number real | Boolean bool

definition truthy :: "jsval \<Rightarrow> bool" where
  "truthy v = (case v of Number r \<Rightarrow> r \<noteq> 0 | Boolean b \<Rightarrow> b)"

definition shouldTranscribe :: "world \<Rightarrow> Gift \<Rightarrow> jsval" where
  "shouldTranscribe w gift =
     (if giftName gift = ''Ice Cream'' then Number 0.5 else Boolean (w_random w 0 < 0.5))"

definition giftMemory :: "Gift \<Rightarrow> Memory" where
  "giftMemory gift =
     \<lparr>memory_user = senderPublicKey gift,
      memory_text = ''Received gift: '' @ giftCount gift @ ''x '' @ giftName gift
                    @ '' worth '' @ coinsTotal gift @ '' coins''\<rparr>"

definition giftBody :: "runtime \<Rightarrow> Gift \<Rightarrow> parsedResponse \<Rightarrow> jsval \<Rightarrow> string option \<Rightarrow> AIResponse" where
  "giftBody rt gift parsed should speechUrl =
     (emptyResponse (rt_agentId rt) (parsed_text parsed))
       \<lparr>replyToUser := Some (senderPublicKey gift),
        replyToHandle := gift_handle gift,
        replyToPfp := gift_avatar gift,
        isGiftResponse := Some True,
        giftId := Some (gift_id gift),
        audioUrl := (if truthy should then speechUrl else None),
        animation := parsed_animation parsed\<rparr>"

definition processGift :: "runtime \<Rightarrow> world \<Rightarrow> Gift \<Rightarrow> bool io" where
  "processGift rt w gift =
     io_bind (try_catch (call (CreateMemory (giftMemory gift)) (w_createMemory w))
                (\<lambda>error. emit (ConsoleError ''Failed to create gift memory''))) (\<lambda>_.
     io_bind (call ComposeState (w_composeState w)) (\<lambda>_.
     io_bind (call (GenerateText aikoGiftResponseTemplate)
                (w_generateText w aikoGiftResponseTemplate)) (\<lambda>responseText.
     case w_parseJSONObjectFromText w responseText of
       None \<Rightarrow>
         io_bind (emit (ConsoleError ''Failed to parse gift response:'')) (\<lambda>_. ret False)
     | Some parsed \<Rightarrow>
         let should = shouldTranscribe w gift in
         io_bind (if truthy should
                  then io_bind (generateSpeech w (parsed_text parsed)) (\<lambda>url. ret (Some url))
                  else ret None) (\<lambda>speechUrl.
         try_catch
           (io_bind (fetch (PostAIResponse (giftBody rt gift parsed should speechUrl))
                       (w_postAIResponse w)) (\<lambda>(status, _).
            io_bind (if ok status
                     then io_bind (markGiftsAsRead w [gift_id gift]) (\<lambda>_. ret ())
                     else ret ()) (\<lambda>_.
            ret (ok status))))
           (\<lambda>error.
              io_bind (emit (ConsoleError ''Failed to post AI response:'')) (\<lambda>_.
              ret False))))))"

text \<open>The \<open>for\<close> loop of \<open>readGifts\<close>: the gifts are processed one after the other, the
  k-th against the outcomes \<open>ws k\<close>, and an exception of \<open>processGift\<close> ends the loop.\<close>

fun processGifts :: "runtime \<Rightarrow> (nat \<Rightarrow> world) \<Rightarrow> nat \<Rightarrow> Gift list \<Rightarrow> unit io" where
  "processGifts rt ws k [] = ret ()"
| "processGifts rt ws k (gift # gifts) =
     io_bind (processGift rt (ws k) gift) (\<lambda>_. processGifts rt ws (Suc k) gifts)"

definition readGifts :: "runtime \<Rightarrow> world \<Rightarrow> (nat \<Rightarrow> world) \<Rightarrow> unit io" where
  "readGifts rt w ws =
     io_bind (fetchUnreadGifts w) (\<lambda>gifts.
       case gifts of
         None \<Rightarrow> ret ()
       | Some gs \<Rightarrow> if length gs > 0 then processGifts rt ws 0 gs else ret ())"

subsection \<open>generateAndShareFreshThought\<close>

definition generateFreshThought :: "world \<Rightarrow> string io" where
  "generateFreshThought w =
     io_bind (call ComposeState (w_composeState w)) (\<lambda>_.
     call (GenerateText freshThoughtTemplate) (w_generateText w freshThoughtTemplate))"

definition generateAndShareFreshThought :: "runtime \<Rightarrow> world \<Rightarrow> unit io" where
  "generateAndShareFreshThought rt w =
     try_catch
       (io_bind (generateFreshThought w) (\<lambda>thoughtText.
        if thoughtText = [] then ret ()
        else
          io_bind (try_catch
                     (io_bind (generateSpeech w (Some thoughtText)) (\<lambda>url. ret (Some url)))
                     (\<lambda>error.
                        io_bind (emit (ConsoleError ''Error generating speech:'')) (\<lambda>_.
                        ret None))) (\<lambda>speechUrl.
          io_bind (fetch (PostAIResponse
                            ((emptyResponse (rt_agentId rt) (Some thoughtText))
                               \<lparr>thought := Some True, audioUrl := speechUrl\<rparr>))
                     (w_postAIResponse w)) (\<lambda>(status, _).
          if \<not> ok status then emit (ConsoleError ''Failed to post fresh thought:'')
          else ret ()))))
       (\<lambda>error. emit (ConsoleError ''Error in generateAndShareFreshThought:''))"

subsection \<open>generateAndSharePeriodicAnimation (and constants.ts)\<close>

definition IDLE :: "string list" where
  "IDLE = [''idle'', ''idle-2'', ''idle_basic'', ''idle_dwarf'', ''offensive_idle'']"

definition HEAD :: "string list" where
  "HEAD = [''acknowledging'', ''hard_head_nod'', ''head_nod_yes'', ''lengthy_head_nod'',
           ''sarcastic_head_nod'', ''shaking_head_no'', ''thoughtful_head_shake'',
           ''annoyed_head_shake'']"

definition GESTURES :: "string list" where
  "GESTURES = [''angry_gesture'', ''being_cocky'', ''dismissing_gesture'',
               ''happy_hand_gesture'', ''look_away_gesture'', ''relieved_sigh'',
               ''standing_clap'']"

definition DANCING :: "string list" where
  "DANCING = [''dancing_twerk'', ''hip_hop_dancing'', ''rumba_dancing'', ''silly_dancing'',
              ''capoeira'']"

definition SITTING :: "string list" where
  "SITTING = [''sitting'', ''sitting_disbelief'', ''sitting_legs_swinging'', ''sitting_yell'']"

definition SPECIAL :: "string list" where
  "SPECIAL = [''appearing'', ''floating'', ''joyful_jump'', ''laughing'', ''super_excited'',
              ''walk_with_rifle'', ''weight_shift'']"

definition getAllAnimations :: "string list" where
  "getAllAnimations = IDLE @ HEAD @ GESTURES @ DANCING @ SPECIAL"

text \<open>
  \<open>String.prototype.trim\<close> and \<open>toLowerCase\<close> on strings of code units below 256 (a
  \<open>char\<close> is one such unit): the white space there is TAB, LF, VT, FF, CR, space and
  the no-break space; the letters with a lower case there are A to Z and the Latin-1
  capitals from 192 to 222 without the multiplication sign 215.
\<close>

definition isWhiteSpace :: "char \<Rightarrow> bool" where
  "isWhiteSpace c = ((of_char c :: nat) \<in> {9, 10, 11, 12, 13, 32, 160})"

definition trim :: "string \<Rightarrow> string" where
  "trim s = rev (dropWhile isWhiteSpace (rev (dropWhile isWhiteSpace s)))"

definition lowerChar :: "char \<Rightarrow> char" where
  "lowerChar c =
     (let n = (of_char c :: nat)
      in if (65 \<le> n \<and> n \<le> 90) \<or> (192 \<le> n \<and> n \<le> 222 \<and> n \<noteq> 215)
         then char_of (n + 32) else c)"

definition toLowerCase :: "string \<Rightarrow> string" where
  "toLowerCase s = map lowerChar s"

definition generateAndSharePeriodicAnimation :: "runtime \<Rightarrow> world \<Rightarrow> unit io" where
  "generateAndSharePeriodicAnimation rt w =
     try_catch
       (io_bind (call ComposeState (w_composeState w)) (\<lambda>_.
        io_bind (call (GenerateText aikoAnimationTemplate)
                   (w_generateText w aikoAnimationTemplate)) (\<lambda>animation.
        let cleanAnimation = toLowerCase (trim animation) in
        if cleanAnimation \<notin> set getAllAnimations then
          emit (ConsoleWarn (''Invalid animation generated: '' @ cleanAnimation
                             @ '', defaulting to '' @ [CHR 0x27] @ ''idle'' @ [CHR 0x27]))
        else
          io_bind (fetch (PostUpdateAnimation cleanAnimation) (w_postUpdateAnimation w))
            (\<lambda>(status, _).
          if \<not> ok status then emit (ConsoleError ''Failed to post periodic animation:'')
          else ret ()))))
       (\<lambda>error. emit (ConsoleError ''Error in generateAndSharePeriodicAnimation:''))"

subsection \<open>readAndRespondToTopLikers\<close>

definition readAndRespondToTopLikers :: "runtime \<Rightarrow> world \<Rightarrow> unit io" where
  "readAndRespondToTopLikers rt w =
     try_catch
       (let use5MinWindow = (w_random w 0 < 0.5);
            timeframe = (if use5MinWindow then ''5m'' else ''all'') in
        io_bind (fetchTopLikers w timeframe) (\<lambda>(success, topLikers).
        case (if success then topLikers else None) of
          None \<Rightarrow> emit (ConsoleError ''Failed to fetch top likers:'')
        | Some likers \<Rightarrow>
           (case getRandomTopLiker (w_random w 1) likers of
              None \<Rightarrow> ret ()
            | Some selectedLiker \<Rightarrow>
               io_bind (call ComposeState (w_composeState w)) (\<lambda>_.
               io_bind (call (GenerateText aikoTopLikerTemplate)
                          (w_generateText w aikoTopLikerTemplate)) (\<lambda>responseText.
               case w_parseJSONObjectFromText w responseText of
                 None \<Rightarrow> emit (ConsoleError ''Failed to parse top liker response:'')
               | Some parsed \<Rightarrow>
                  io_bind (fetch (PostAIResponse
                                    ((emptyResponse (rt_agentId rt) (parsed_text parsed))
                                       \<lparr>animation := parsed_animation parsed,
                                        replyToUser := liker_handle selectedLiker,
                                        replyToHandle := liker_handle selectedLiker,
                                        replyToPfp := pfp selectedLiker,
                                        isTopLikerResponse := Some True\<rparr>))
                             (w_postAIResponse w)) (\<lambda>(status, _).
                  if ok status then ret ()
                  else emit (ConsoleError ''Failed to post top liker response:'')))))))
       (\<lambda>error. emit (ConsoleError ''Error in readAndRespondToTopLikers:''))"

subsection \<open>readChatAndReply, processComments and selectCommentToRespondTo\<close>

text \<open>The two fields of the client that the job bodies write.\<close>

record AikoClient =
  lastProcessedTimestamp :: "int option"
  lastAgentChatMessageId :: "string option"

text \<open>
  A \<open>const\<close> of a function body exists from the start of the body and is not
  initialised before its declaration is executed; reading it earlier throws a
  \<open>ReferenceError\<close>. \<open>processComments\<close> declares \<open>content\<close>, \<open>userIdUUID\<close> and
  \<open>userMessage\<close> after it has selected a comment; a scope holds these three bindings.
\<close>

datatype 'a binding = Uninitialized | Initialized 'a

definition readBinding :: "string \<Rightarrow> 'a binding \<Rightarrow> 'a io" where
  "readBinding x b =
     (case b of
        Uninitialized \<Rightarrow> throw (ReferenceError (''Cannot access '' @ x @ '' before initialization''))
      | Initialized v \<Rightarrow> ret v)"

record scope =
  content :: "string binding"
  userIdUUID :: "string binding"
  userMessage :: "(string \<times> string) binding"

text \<open>The scope when the loop over the batch runs: the three declarations come later in
  the function.\<close>

definition scopeBeforeSelection :: scope where
  "scopeBeforeSelection =
     \<lparr>content = Uninitialized, userIdUUID = Uninitialized, userMessage = Uninitialized\<rparr>"

text \<open>
  The callback mapped over the batch: it builds the memory object, whose literal reads
  \<open>userMessage\<close>, then \<open>userIdUUID\<close>, then \<open>content\<close>, and creates the memory when
  \<open>content.text\<close> is not empty.
\<close>

definition createCommentMemory :: "world \<Rightarrow> scope \<Rightarrow> IComment \<Rightarrow> unit io" where
  "createCommentMemory w sc comment =
     io_bind (readBinding ''userMessage'' (userMessage sc)) (\<lambda>um.
     io_bind (readBinding ''userIdUUID'' (userIdUUID sc)) (\<lambda>uid.
     io_bind (readBinding ''content'' (content sc)) (\<lambda>c.
     if c \<noteq> [] then call (CreateMemory \<lparr>memory_user = uid, memory_text = c\<rparr>) (w_createMemory w)
     else ret ())))"

text \<open>\<open>Promise.allSettled\<close> over callbacks that have all been started: every effect
  happens, every outcome is collected, nothing is thrown.\<close>

definition allSettled :: "'a io list \<Rightarrow> (error + 'a) list io" where
  "allSettled ms = (concat (map fst ms), Inr (map snd ms))"

definition selectCommentToRespondTo :: "world \<Rightarrow> IComment list \<Rightarrow> string option io" where
  "selectCommentToRespondTo w comments =
     (if length comments = 0 then ret None
      else
        io_bind (call ComposeState (w_composeState w)) (\<lambda>_.
        io_bind (call (GenerateText aikoSelectCommentTemplate)
                   (w_generateText w aikoSelectCommentTemplate)) (\<lambda>selectedCommentId.
        ret (if selectedCommentId = ''NONE'' then None else Some selectedCommentId))))"

text \<open>\<open>_generateResponse\<close>: without a response it logs and returns \<open>undefined\<close>.\<close>

definition generateResponse :: "world \<Rightarrow> Content option io" where
  "generateResponse w =
     io_bind (call GenerateMessageResponse (w_generateMessageResponse w)) (\<lambda>response.
     case response of
       None \<Rightarrow>
         io_bind (emit (ConsoleError ''No response from generateMessageResponse'')) (\<lambda>_.
         ret None)
     | Some r \<Rightarrow> io_bind (call DatabaseLog (w_databaseLog w)) (\<lambda>_. ret (Some r)))"

text \<open>The body of the reply. The spread of the response content at the end of the
  literal overrides the fields written before it: the animation, when the content has
  one.\<close>

definition commentBody ::
  "runtime \<Rightarrow> IComment \<Rightarrow> Content \<Rightarrow> string option \<Rightarrow> string \<Rightarrow> string option \<Rightarrow> AIResponse" where
  "commentBody rt selectedComment responseContent responseText animationResponse speechUrl =
     (emptyResponse (rt_agentId rt) responseText)
       \<lparr>replyToMessageId := Some (comment_id selectedComment),
        replyToMessage := Some (comment_message selectedComment),
        replyToUser := Some (comment_user selectedComment),
        replyToHandle := comment_handle selectedComment,
        replyToPfp := comment_avatar selectedComment,
        isGiftResponse := Some False,
        audioUrl := speechUrl,
        animation := (case content_animation responseContent of
                        None \<Rightarrow> Some animationResponse
                      | Some a \<Rightarrow> Some a)\<rparr>"

text \<open>\<open>processComments\<close> from the declaration of \<open>content\<close> on, for the selected
  comment.\<close>

definition respondToSelected :: "runtime \<Rightarrow> world \<Rightarrow> IComment \<Rightarrow> string list \<Rightarrow> string list io" where
  "respondToSelected rt w selectedComment commentIds =
     (let content = comment_message selectedComment;
          userIdUUID = comment_user selectedComment in
      io_bind (call (EnsureConnection userIdUUID) (w_ensureConnection w)) (\<lambda>_.
      io_bind (if content \<noteq> []
               then call (CreateMemory \<lparr>memory_user = userIdUUID, memory_text = content\<rparr>)
                      (w_createMemory w)
               else ret ()) (\<lambda>_.
      io_bind (call ComposeState (w_composeState w)) (\<lambda>_.
      io_bind (generateResponse w) (\<lambda>response.
      case response of
        None \<Rightarrow> throw (TypeError ''Cannot read properties of undefined (reading text)'')
      | Some responseContent \<Rightarrow>
          let responseText = map_option trim (content_text responseContent) in
          io_bind (call (GenerateText aikoMessageAnimationTemplate)
                     (w_generateText w aikoMessageAnimationTemplate)) (\<lambda>animationResponse.
          io_bind (try_catch
                     (io_bind (generateSpeech w responseText) (\<lambda>url. ret (Some url)))
                     (\<lambda>error.
                        io_bind (emit (ConsoleError ''Failed to generate speech'')) (\<lambda>_.
                        ret None))) (\<lambda>speechUrl.
          io_bind (fetch (PostAIResponse
                            (commentBody rt selectedComment responseContent responseText
                               animationResponse speechUrl))
                     (w_postAIResponse w)) (\<lambda>(status, _).
          io_bind (if status \<noteq> 200 then emit (ConsoleError ''Failed to post response to api'')
                   else ret ()) (\<lambda>_.
          ret commentIds)))))))))"

text \<open>The truth value of the selected id: \<open>null\<close> and the empty string are false.\<close>

definition truthyId :: "string option \<Rightarrow> bool" where
  "truthyId i = (case i of None \<Rightarrow> False | Some s \<Rightarrow> s \<noteq> [])"

text \<open>\<open>processComments\<close>. Its result, the ids of the batch or the batch itself, is only
  counted by the caller; the model returns the ids in both cases.\<close>

definition processComments :: "runtime \<Rightarrow> world \<Rightarrow> IComment list \<Rightarrow> string list io" where
  "processComments rt w comments =
     (let commentIds = map comment_id comments in
      if length commentIds = 0 then ret commentIds
      else
        io_bind (try_catch (io_bind (markCommentsAsRead w commentIds) (\<lambda>_. ret ()))
                   (\<lambda>error. emit (ConsoleError ''aiko: Failed to mark comments as read''))) (\<lambda>_.
        io_bind (allSettled (map (createCommentMemory w scopeBeforeSelection) comments)) (\<lambda>_.
        io_bind (if length comments = 1 then ret (Some (comment_id (comments ! 0)))
                 else selectCommentToRespondTo w comments) (\<lambda>selectedCommentId.
        if \<not> truthyId selectedCommentId then ret commentIds
        else
          case find (\<lambda>comment. Some (comment_id comment) = selectedCommentId) comments of
            None \<Rightarrow>
              io_bind (emit (ConsoleError ''Selected comment not found:'')) (\<lambda>_.
              ret commentIds)
          | Some selectedComment \<Rightarrow> respondToSelected rt w selectedComment commentIds))))"

text \<open>A job body that writes the client's fields returns the client with its
  computation; the writes made before an exception stay.\<close>

definition readChatAndReply :: "runtime \<Rightarrow> world \<Rightarrow> AikoClient \<Rightarrow> unit io \<times> AikoClient" where
  "readChatAndReply rt w c =
     (let tried =
            io_bind (fetchUnreadComments w (lastProcessedTimestamp c)) (\<lambda>comments.
            case comments of
              None \<Rightarrow> ret ()
            | Some cs \<Rightarrow>
                if length cs > 0 then io_bind (processComments rt w cs) (\<lambda>_. ret ())
                else ret ())
      in case snd tried of
           Inr _ \<Rightarrow> ((fst tried, Inr ()), c\<lparr>lastProcessedTimestamp := Some (w_now w)\<rparr>)
         | Inl error \<Rightarrow> ((fst tried @ [ConsoleError ''Error in readChatAndReply:''], Inr ()), c))"

subsection \<open>readAgentChatAndReply\<close>

text \<open>The reply of the peer-room job, from the composition of the context to the post
  to the room; it returns whether the message was posted (the other way out is the
  early return after a response that does not parse or has no text).\<close>

definition replyInRoom :: "runtime \<Rightarrow> world \<Rightarrow> bool io" where
  "replyInRoom rt w =
     io_bind (call ComposeState (w_composeState w)) (\<lambda>_.
     io_bind (call (GenerateText roomChatTemplate) (w_generateText w roomChatTemplate))
       (\<lambda>responseText.
     case w_parseJSONObjectFromText w responseText of
       None \<Rightarrow> io_bind (emit (ConsoleError ''Failed to parse response:'')) (\<lambda>_. ret False)
     | Some parsed \<Rightarrow>
         if parsed_text parsed = None \<or> parsed_text parsed = Some [] then
           io_bind (emit (ConsoleError ''Failed to parse response:'')) (\<lambda>_. ret False)
         else
           io_bind (try_catch
                      (io_bind (generateSpeech w (parsed_text parsed)) (\<lambda>url. ret (Some url)))
                      (\<lambda>error.
                         io_bind (emit (ConsoleError ''Failed to generate speech'')) (\<lambda>_.
                         ret None))) (\<lambda>speechUrl.
           io_bind (call (PostRoomMessage (parsed_text parsed) speechUrl)
                      (w_postRoomMessage w)) (\<lambda>_.
           ret True))))"

definition readAgentChatAndReply :: "runtime \<Rightarrow> world \<Rightarrow> AikoClient \<Rightarrow> unit io \<times> AikoClient" where
  "readAgentChatAndReply rt w c =
     (if \<not> isInChat rt then (ret (), c)
      else
        case w_fetchRoomMessages w of
          Inl error \<Rightarrow>
            (([FetchRoomMessages, ConsoleError ''Error in readAgentChatAndReply:''], Inr ()), c)
        | Inr (success, messages) \<Rightarrow>
           (case (if success then messages else None) of
              None \<Rightarrow> (([FetchRoomMessages], Inr ()), c)
            | Some incomingMessages \<Rightarrow>
                if length incomingMessages = 0 then (([FetchRoomMessages], Inr ()), c)
                else
                  let latestMessage = incomingMessages ! (length incomingMessages - 1) in
                  if lastAgentChatMessageId c = Some (message_id latestMessage)
                  then (([FetchRoomMessages], Inr ()), c)
                  else if message_agentId latestMessage = rt_agentId rt
                  then (([FetchRoomMessages], Inr ()),
                        c\<lparr>lastAgentChatMessageId := Some (message_id latestMessage)\<rparr>)
                  else if length incomingMessages > 0 then
                    (let reply = replyInRoom rt w in
                     case snd reply of
                       Inl error \<Rightarrow>
                         ((FetchRoomMessages # fst reply
                             @ [ConsoleError ''Error in readAgentChatAndReply:''], Inr ()), c)
                     | Inr False \<Rightarrow> ((FetchRoomMessages # fst reply, Inr ()), c)
                     | Inr True \<Rightarrow>
                         ((FetchRoomMessages # fst reply, Inr ()),
                          c\<lparr>lastAgentChatMessageId := Some (message_id latestMessage),
                            lastProcessedTimestamp := Some (w_now w)\<rparr>))
                  else (([FetchRoomMessages], Inr ()),
                        c\<lparr>lastProcessedTimestamp := Some (w_now w)\<rparr>)))"

subsection \<open>The dispatch and a whole call of processNextTask\<close>

text \<open>The \<open>switch\<close> on the task's name; a name without a case runs nothing.\<close>

definition runTask ::
  "runtime \<Rightarrow> world \<Rightarrow> (nat \<Rightarrow> world) \<Rightarrow> string \<Rightarrow> AikoClient \<Rightarrow> unit io \<times> AikoClient" where
  "runTask rt w ws n c =
     (if n = ''readGifts'' then (readGifts rt w ws, c)
      else if n = ''readChatAndReply'' then readChatAndReply rt w c
      else if n = ''readAndRespondToTopLikers'' then (readAndRespondToTopLikers rt w, c)
      else if n = ''generateFreshThought'' then (generateAndShareFreshThought rt w, c)
      else if n = ''readAgentChatAndReply'' then readAgentChatAndReply rt w c
      else if n = ''generatePeriodicAnimation'' then (generateAndSharePeriodicAnimation rt w, c)
      else if n = ''heartbeat'' then (heartbeat w, c)
      else (ret (), c))"

text \<open>
  One call of \<open>processNextTask\<close> from its first line to the end of its \<open>finally\<close>
  block, when nothing else runs in between: \<open>now\<close> is the clock at its start and
  \<open>done\<close> the clock in the \<open>finally\<close> block.
\<close>

definition processNextTask ::
  "runtime \<Rightarrow> int \<Rightarrow> world \<Rightarrow> (nat \<Rightarrow> world) \<Rightarrow> int \<Rightarrow> TaskPriority list \<times> AikoClient
     \<Rightarrow> unit io \<times> TaskPriority list \<times> AikoClient" where
  "processNextTask rt now w ws done qc =
     (case startTask now (fst qc) of
        (q1, None) \<Rightarrow> (ret (), fst qc, snd qc)
      | (q1, Some i) \<Rightarrow>
          let body = runTask rt w ws (name (q1 ! i)) (snd qc);
              tried = try_catch (fst body)
                        (\<lambda>error. emit (ConsoleError (''Error executing task '' @ name (q1 ! i) @ '':'')))
          in (tried, clearRunning i (setLastRun i done q1), snd body))"

section \<open>The interleaved scheduler: flags and outstanding bodies\<close>

text \<open>The flags of the registry agree with the bodies that are outstanding: a task is
  flagged exactly when a tick has started its body and the body has not settled.\<close>

definition flagsMatch :: "scheduler \<Rightarrow> bool" where
  "flagsMatch s =
     (distinct (outstanding s) \<and> list_all (\<lambda>j. j < length (queue s)) (outstanding s)
      \<and> list_all (\<lambda>j. running (queue s ! j) = (j \<in> set (outstanding s))) [0..<length (queue s)])"

section \<open>Reading a trace\<close>

text \<open>The effects record the calls that were made, whatever their outcome. The
  responses handed to the publish endpoint, and the memories handed to the memory
  store, in order.\<close>

fun publishedResponse :: "effect \<Rightarrow> AIResponse option" where
  "publishedResponse (PostAIResponse b) = Some b"
| "publishedResponse _ = None"

definition published :: "effect list \<Rightarrow> AIResponse list" where
  "published tr = List.map_filter publishedResponse tr"

fun createdMemory :: "effect \<Rightarrow> Memory option" where
  "createdMemory (CreateMemory m) = Some m"
| "createdMemory _ = None"

definition memories :: "effect list \<Rightarrow> Memory list" where
  "memories tr = List.map_filter createdMemory tr"

section \<open>Concrete inputs\<close>

definition aiko :: runtime where
  "aiko = \<lparr>rt_agentId = ''agent-1'', characterName = ''Aiko'', isInChat = True\<rparr>"

text \<open>Every collaborator answers; the Generation Service picks the comment \<open>c2\<close> and
  the animation \<open>Floating\<close>, the random draws are 0.75, the batches are empty.\<close>

definition allSucceed :: world where
  "allSucceed =
     \<lparr>w_composeState = Inr (),
      w_generateText = (\<lambda>t. Inr (if t = aikoSelectCommentTemplate then ''c2''
                                 else if t = aikoAnimationTemplate then '' Floating ''
                                 else ''thanks'')),
      w_generateMessageResponse = Inr (Some \<lparr>content_text = Some ''hi there '', content_animation = None\<rparr>),
      w_parseJSONObjectFromText = (\<lambda>s. Some \<lparr>parsed_text = Some s, parsed_animation = Some ''laughing''\<rparr>),
      w_generateSpeech = (\<lambda>t. Uploaded ''https://aikotv.b-cdn.net/agent-1.mp3''),
      w_createMemory = Inr (),
      w_ensureConnection = Inr (),
      w_databaseLog = Inr (),
      w_random = (\<lambda>k. 0.75),
      w_now = 1700000002000,
      w_postAIResponse = Reply 200 (),
      w_postUpdateAnimation = Reply 200 (),
      w_putScene = Reply 200 True,
      w_getUnreadComments = Reply 200 (Some []),
      w_getUnreadGifts = Reply 200 (Some []),
      w_getTopLikers = Reply 200 (Some []),
      w_markCommentsAsRead = Reply 200 (),
      w_markGiftsAsRead = Reply 200 (),
      w_fetchRoomMessages = Inr (True, Some []),
      w_postRoomMessage = Inr ()\<rparr>"

text \<open>The same, with the upload of the audio refused.\<close>

definition speechDown :: world where
  "speechDown = allSucceed\<lparr>w_generateSpeech := (\<lambda>t. UploadRefused 403 ''Forbidden'')\<rparr>"

definition iceCream :: Gift where
  "iceCream =
     \<lparr>gift_id = ''g1'', giftName = ''Ice Cream'', giftCount = ''1'', coinsTotal = ''5'',
      senderPublicKey = ''pk1'', gift_handle = Some ''fan'', gift_avatar = None\<rparr>"

definition rose :: Gift where
  "rose = iceCream\<lparr>gift_id := ''g2'', giftName := ''Rose''\<rparr>"

definition comment1 :: IComment where
  "comment1 =
     \<lparr>comment_id = ''c1'', comment_user = ''u1'', comment_message = ''hello aiko'',
      comment_handle = None, comment_avatar = None\<rparr>"

definition comment2 :: IComment where
  "comment2 = comment1\<lparr>comment_id := ''c2'', comment_user := ''u2'', comment_message := ''nice stream''\<rparr>"

text \<open>The registry one second after every task has completed a run.\<close>

definition justRan :: "TaskPriority list" where
  "justRan = map (\<lambda>t. t\<lparr>lastRun := Some 1699999999000, isRunning := Some False\<rparr>) taskQueue"

definition freshClient :: AikoClient where
  "freshClient = \<lparr>lastProcessedTimestamp = Some 1700000000000, lastAgentChatMessageId = None\<rparr>"

text \<open>An Ice Cream gift is waiting and the upload of the audio is refused.\<close>

definition iceCreamWaiting :: world where
  "iceCreamWaiting = speechDown\<lparr>w_getUnreadGifts := Reply 200 (Some [iceCream])\<rparr>"

text \<open>Two gifts are waiting, the Ice Cream first, and the upload of the audio is refused.\<close>

definition twoGiftsWaiting :: world where
  "twoGiftsWaiting = speechDown\<lparr>w_getUnreadGifts := Reply 200 (Some [iceCream, rose])\<rparr>"

text \<open>Two comments are waiting and the Generation Service is down.\<close>

definition generationDown :: world where
  "generationDown =
     allSucceed\<lparr>w_getUnreadComments := Reply 200 (Some [comment1, comment2]),
                w_generateText := (\<lambda>t. Inl (Error ''model unavailable''))\<rparr>"

text \<open>The Data Gateway does not answer.\<close>

definition gatewayDown :: world where
  "gatewayDown = allSucceed\<lparr>w_getUnreadComments := Unreachable (Error ''ECONNREFUSED'')\<rparr>"

text \<open>The Generation Service finds no comment suitable.\<close>

definition noneSuitable :: world where
  "noneSuitable = allSucceed\<lparr>w_generateText := (\<lambda>t. Inr ''NONE'')\<rparr>"

text \<open>A comment whose id is the empty string.\<close>

definition unnamedComment :: IComment where
  "unnamedComment = comment1\<lparr>comment_id := []\<rparr>"

text \<open>Another agent has spoken last in the peer room.\<close>

definition peerMessage :: RoomMessage where
  "peerMessage =
     \<lparr>message_id = ''m7'', message_agentId = ''agent-2'', agentName = ''Bo'',
      message_text = ''hi aiko''\<rparr>"

definition peerSpoke :: world where
  "peerSpoke = allSucceed\<lparr>w_fetchRoomMessages := Inr (True, Some [peerMessage])\<rparr>"

text \<open>The Generation Service answers with an animation that is not in the catalog.\<close>

definition flyingGenerated :: world where
  "flyingGenerated = allSucceed\<lparr>w_generateText := (\<lambda>t. Inr ''flying'')\<rparr>"

section \<open>Properties\<close>

subsection \<open>Facts about the model\<close>

lemma findIndex_Some:
  "findIndex P xs = Some i \<Longrightarrow> i < length xs \<and> P (xs ! i) \<and> (\<forall>j<i. \<not> P (xs ! j))"
proof (induction xs arbitrary: i)
  case Nil
  then show ?case by simp
next
  case (Cons x xs)
  show ?case
  proof (cases "P x")
    case True
    with Cons.prems show ?thesis by simp
  next
    case False
    with Cons.prems obtain k where k: "findIndex P xs = Some k" "i = Suc k"
      by (auto split: if_splits)
    from Cons.IH[OF k(1)] False k(2) show ?thesis
      by (auto simp: nth_Cons split: nat.splits)
  qed
qed

lemma findIndex_None: "findIndex P xs = None \<longleftrightarrow> (\<forall>x\<in>set xs. \<not> P x)"
  by (induction xs) auto

lemma startTask_None:
  "snd (startTask now q) = None \<longleftrightarrow> findIndex (eligible now) q = None"
  by (simp add: startTask_def split: option.splits)

lemma startTask_Some:
  assumes "snd (startTask now q) = Some i"
  shows "i < length q" and "eligible now (q ! i)" and "\<forall>j<i. \<not> eligible now (q ! j)"
    and "fst (startTask now q) = q[i := (q ! i)\<lparr>isRunning := Some True\<rparr>]"
proof -
  from assms have f: "findIndex (eligible now) q = Some i"
    by (simp add: startTask_def split: option.splits)
  from findIndex_Some[OF f] show "i < length q" and "eligible now (q ! i)"
    and "\<forall>j<i. \<not> eligible now (q ! j)" by auto
  from f show "fst (startTask now q) = q[i := (q ! i)\<lparr>isRunning := Some True\<rparr>]"
    by (simp add: startTask_def)
qed

lemma finish_nth:
  assumes "i < length q"
  shows "lastRun (clearRunning i (setLastRun i d q) ! i) = Some d"
    and "isRunning (clearRunning i (setLastRun i d q) ! i) = Some False"
    and "j \<noteq> i \<Longrightarrow> clearRunning i (setLastRun i d q) ! j = q ! j"
    and "length (clearRunning i (setLastRun i d q)) = length q"
  using assms by (simp_all add: clearRunning_def setLastRun_def)

lemma finish_quiet:
  assumes "i < length q" and "\<forall>j<length q. j \<noteq> i \<longrightarrow> \<not> running (q ! j)"
  shows "\<forall>t\<in>set (clearRunning i (setLastRun i d q)). \<not> running t"
proof
  fix t assume "t \<in> set (clearRunning i (setLastRun i d q))"
  then obtain j where j: "j < length q" "t = clearRunning i (setLastRun i d q) ! j"
    by (auto simp: in_set_conv_nth finish_nth(4)[OF assms(1)])
  show "\<not> running t"
  proof (cases "j = i")
    case True
    with j finish_nth(2)[OF assms(1), of d] show ?thesis by (simp add: running_def)
  next
    case False
    with j assms(2) finish_nth(3)[OF assms(1) False, of d] show ?thesis by simp
  qed
qed

lemma try_catch_returns:
  "snd (try_catch m (\<lambda>e. emit (h e))) = Inr ()"
  by (cases m) (auto simp: try_catch_def emit_def split: sum.splits)

lemma try_catch_logs:
  "snd m = Inl e \<Longrightarrow> fst (try_catch m (\<lambda>e. emit (h e))) = fst m @ [h e]"
  by (simp add: try_catch_def emit_def)

lemma processNextTask_returns:
  "snd (fst (processNextTask rt now w ws d (q, c))) = Inr ()"
  by (simp add: processNextTask_def Let_def try_catch_returns ret_def split: prod.splits option.splits)

lemma processNextTask_idle:
  "findIndex (eligible now) q = None \<Longrightarrow> processNextTask rt now w ws d (q, c) = (ret (), q, c)"
  by (simp add: processNextTask_def startTask_def)

lemma processNextTask_queue:
  "snd (startTask now q) = Some i \<Longrightarrow>
   fst (snd (processNextTask rt now w ws d (q, c))) = clearRunning i (setLastRun i d (fst (startTask now q)))"
  by (cases "startTask now q") (auto simp: processNextTask_def Let_def split: option.splits)

lemma processNextTask_quiet:
  assumes "\<forall>t\<in>set q. \<not> running t"
  shows "\<forall>t\<in>set (fst (snd (processNextTask rt now w ws d (q, c)))). \<not> running t"
proof (cases "snd (startTask now q)")
  case None
  then have "findIndex (eligible now) q = None" by (simp add: startTask_None)
  with assms show ?thesis by (simp add: processNextTask_idle)
next
  case (Some i)
  note st = startTask_Some[OF Some]
  let ?q1 = "fst (startTask now q)"
  have len: "i < length ?q1" using st(1) st(4) by simp
  have "\<forall>j<length ?q1. j \<noteq> i \<longrightarrow> \<not> running (?q1 ! j)"
    using assms st(1) st(4) by (auto simp: nth_list_update)
  from finish_quiet[OF len this] show ?thesis
    by (simp add: processNextTask_queue[OF Some])
qed

lemma processNextTask_logs:
  assumes "snd (startTask now q) = Some i"
    and "snd (fst (runTask rt w ws (name (q ! i)) c)) = Inl e"
  shows "fst (fst (processNextTask rt now w ws d (q, c)))
           = fst (fst (runTask rt w ws (name (q ! i)) c)) @ [ConsoleError (''Error executing task '' @ name (q ! i) @ '':'')]"
proof -
  note st = startTask_Some[OF assms(1)]
  have n: "name (fst (startTask now q) ! i) = name (q ! i)"
    using st(1) st(4) by simp
  obtain q1 where q1: "startTask now q = (q1, Some i)"
    using assms(1) by (cases "startTask now q") auto
  with n have n': "name (q1 ! i) = name (q ! i)" by simp
  show ?thesis
    using assms(2) q1 n'
    by (simp add: processNextTask_def Let_def try_catch_logs)
qed

lemma flagsMatch_iff:
  "flagsMatch s \<longleftrightarrow>
     distinct (outstanding s) \<and> (\<forall>j\<in>set (outstanding s). j < length (queue s))
     \<and> (\<forall>j<length (queue s). running (queue s ! j) = (j \<in> set (outstanding s)))"
  by (auto simp: flagsMatch_def list_all_iff)

lemma flagsMatch_boot: "flagsMatch boot"
  by (simp add: flagsMatch_def boot_def taskQueue_def task_def running_def upt_rec)

lemma flagsMatch_tick:
  assumes "flagsMatch s"
  shows "flagsMatch (step s (Tick now))"
proof (cases "snd (startTask now (queue s))")
  case None
  then have "step s (Tick now) = s"
    by (cases "startTask now (queue s)") simp
  with assms show ?thesis by simp
next
  case (Some i)
  note st = startTask_Some[OF Some]
  from assms have inv: "distinct (outstanding s)"
    "\<forall>j\<in>set (outstanding s). j < length (queue s)"
    "\<forall>j<length (queue s). running (queue s ! j) = (j \<in> set (outstanding s))"
    by (simp_all add: flagsMatch_iff)
  from st(2) have "\<not> running (queue s ! i)" by (simp add: eligible_def Let_def)
  with inv(3) st(1) have fresh: "i \<notin> set (outstanding s)" by simp
  have eq: "step s (Tick now) =
      s\<lparr>queue := (queue s)[i := (queue s ! i)\<lparr>isRunning := Some True\<rparr>],
        outstanding := outstanding s @ [i]\<rparr>"
    using Some st(4) by (cases "startTask now (queue s)") simp
  show ?thesis
    unfolding eq flagsMatch_iff
    using inv fresh st(1) by (auto simp: nth_list_update running_def)
qed

lemma flagsMatch_settle:
  assumes "flagsMatch s"
  shows "flagsMatch (step s (Settle i out d))"
proof (cases "i \<in> set (outstanding s)")
  case False
  with assms show ?thesis by simp
next
  case True
  from assms have inv: "distinct (outstanding s)"
    "\<forall>j\<in>set (outstanding s). j < length (queue s)"
    "\<forall>j<length (queue s). running (queue s ! j) = (j \<in> set (outstanding s))"
    by (simp_all add: flagsMatch_iff)
  from inv(2) True have len: "i < length (queue s)" by simp
  show ?thesis
    unfolding flagsMatch_iff
    using True inv len
    by (auto simp: finishTask_def clearRunning_def setLastRun_def nth_list_update running_def)
qed

lemma flagsMatch_step: "flagsMatch s \<Longrightarrow> flagsMatch (step s ev)"
  by (cases ev) (simp_all only: flagsMatch_tick flagsMatch_settle)

lemma flagsMatch_foldl: "flagsMatch s \<Longrightarrow> flagsMatch (foldl step s evs)"
  by (induction evs arbitrary: s) (simp_all add: flagsMatch_step)

lemma flagsMatch_run: "flagsMatch (run evs)"
  unfolding run_def by (rule flagsMatch_foldl[OF flagsMatch_boot])

lemma settle_bookkeeping:
  assumes "flagsMatch s" and "i \<in> set (outstanding s)"
  shows "lastRun (queue (step s (Settle i out d)) ! i) = Some d"
    and "isRunning (queue (step s (Settle i out d)) ! i) = Some False"
    and "i \<notin> set (outstanding (step s (Settle i out d)))"
    and "console (step s (Settle i out d)) = console s @ catchBlock (queue s ! i) out"
proof -
  from assms have len: "i < length (queue s)" and d: "distinct (outstanding s)"
    by (auto simp: flagsMatch_iff)
  from assms(2) len show "lastRun (queue (step s (Settle i out d)) ! i) = Some d"
    by (simp add: finishTask_def finish_nth)
  from assms(2) len show "isRunning (queue (step s (Settle i out d)) ! i) = Some False"
    by (simp add: finishTask_def finish_nth)
  from assms(2) d show "i \<notin> set (outstanding (step s (Settle i out d)))" by simp
  from assms(2) show "console (step s (Settle i out d)) = console s @ catchBlock (queue s ! i) out"
    by (simp add: finishTask_def)
qed

lemmas sched_defs = run_def boot_def taskQueue_def task_def startTask_def eligible_def
  lastRunOrZero_def running_def finishTask_def clearRunning_def setLastRun_def catchBlock_def

lemmas io_defs = ret_def emit_def call_def io_bind_def try_catch_def fetch_def throw_def ok_def

lemmas input_defs = aiko_def allSucceed_def speechDown_def iceCream_def rose_def comment1_def
  comment2_def freshClient_def iceCreamWaiting_def twoGiftsWaiting_def generationDown_def
  gatewayDown_def noneSuitable_def unnamedComment_def peerMessage_def peerSpoke_def
  flyingGenerated_def

lemma readGifts_throws:
  "snd (fst (runTask aiko iceCreamWaiting (\<lambda>k. speechDown) ''readGifts'' freshClient))
     = Inl (Error ''Upload failed: Forbidden'')"
  by (simp add: runTask_def readGifts_def fetchUnreadGifts_def processGift_def
      shouldTranscribe_def truthy_def generateSpeech_def io_defs input_defs)

lemma fst_ret: "fst (ret v) = []" and snd_ret: "snd (ret v) = Inr v"
  by (simp_all add: ret_def)

lemma fst_emit: "fst (emit ef) = [ef]" and snd_emit: "snd (emit ef) = Inr ()"
  by (simp_all add: emit_def)

lemma fst_call: "fst (call ef r) = [ef]" and snd_call: "snd (call ef r) = r"
  by (simp_all add: call_def)

lemma fst_throw: "fst (throw e) = []" and snd_throw: "snd (throw e) = Inl e"
  by (simp_all add: throw_def)

lemma fst_fetch: "fst (fetch ef r) = [ef]"
  and snd_fetch: "snd (fetch ef r) = (case r of Unreachable e \<Rightarrow> Inl e | Reply s b \<Rightarrow> Inr (s, b))"
  by (simp_all add: fetch_def split: http.splits)

lemma fst_io_bind:
  "fst (io_bind m f) = (case snd m of Inl e \<Rightarrow> fst m | Inr v \<Rightarrow> fst m @ fst (f v))"
  and snd_io_bind:
  "snd (io_bind m f) = (case snd m of Inl e \<Rightarrow> Inl e | Inr v \<Rightarrow> snd (f v))"
  by (simp_all add: io_bind_def split: sum.splits)

lemma fst_try_catch:
  "fst (try_catch m h) = (case snd m of Inl e \<Rightarrow> fst m @ fst (h e) | Inr v \<Rightarrow> fst m)"
  and snd_try_catch:
  "snd (try_catch m h) = (case snd m of Inl e \<Rightarrow> snd (h e) | Inr v \<Rightarrow> Inr v)"
  by (simp_all add: try_catch_def split: sum.splits)

lemmas io_simps = fst_ret snd_ret fst_emit snd_emit fst_call snd_call fst_throw snd_throw
  fst_fetch snd_fetch fst_io_bind snd_io_bind fst_try_catch snd_try_catch

lemma fst_generateSpeech:
  "fst (generateSpeech w t)
     = GenerateSpeech t
         # (case w_generateSpeech w t of
              SynthesisFailed e \<Rightarrow> []
            | UploadRefused st d \<Rightarrow> [ConsoleError ''upload failed'']
            | UploadError e \<Rightarrow> [ConsoleError ''upload error'']
            | Uploaded url \<Rightarrow> [])"
  and snd_generateSpeech:
  "snd (generateSpeech w t)
     = (case w_generateSpeech w t of
          SynthesisFailed e \<Rightarrow> Inl e
        | UploadRefused st d \<Rightarrow> Inl (Error (''Upload failed: '' @ d))
        | UploadError e \<Rightarrow> Inl e
        | Uploaded url \<Rightarrow> Inr url)"
  by (simp_all add: generateSpeech_def io_simps split: speech.splits)

lemmas speech_simps = fst_generateSpeech snd_generateSpeech

lemma fst_markCommentsAsRead:
  "fst (markCommentsAsRead w ids)
     = MarkCommentsAsRead ids
         # (case w_markCommentsAsRead w of
              Unreachable e \<Rightarrow> [ConsoleError ''Error marking comments as read:'']
            | Reply st b \<Rightarrow> [])"
  and snd_markCommentsAsRead:
  "snd (markCommentsAsRead w ids)
     = Inr (case w_markCommentsAsRead w of Unreachable e \<Rightarrow> False | Reply st b \<Rightarrow> ok st)"
  by (simp_all add: markCommentsAsRead_def io_simps split: http.splits)

lemma fst_markGiftsAsRead:
  "fst (markGiftsAsRead w ids)
     = MarkGiftsAsRead ids
         # (case w_markGiftsAsRead w of
              Unreachable e \<Rightarrow> [ConsoleError ''Error marking gifts as read:'']
            | Reply st b \<Rightarrow> [])"
  and snd_markGiftsAsRead:
  "snd (markGiftsAsRead w ids)
     = Inr (case w_markGiftsAsRead w of Unreachable e \<Rightarrow> False | Reply st b \<Rightarrow> ok st)"
  by (simp_all add: markGiftsAsRead_def io_simps split: http.splits)

lemmas mark_simps = fst_markCommentsAsRead snd_markCommentsAsRead fst_markGiftsAsRead
  snd_markGiftsAsRead

lemma markCommentsAsRead_asks_nothing:
  "GenerateText tm \<notin> set (fst (markCommentsAsRead w ids))"
  by (simp add: fst_markCommentsAsRead split: http.splits)

lemma published_simps:
  "published [] = []"
  "published (a @ b) = published a @ published b"
  "published (PostAIResponse r # tr) = r # published tr"
  "\<not> (\<exists>r. ef = PostAIResponse r) \<Longrightarrow> published (ef # tr) = published tr"
  by (cases ef; simp add: published_def List.map_filter_def)+

lemma memories_simps:
  "memories [] = []"
  "memories (a @ b) = memories a @ memories b"
  "memories (CreateMemory m # tr) = m # memories tr"
  "\<not> (\<exists>m. ef = CreateMemory m) \<Longrightarrow> memories (ef # tr) = memories tr"
  by (cases ef; simp add: memories_def List.map_filter_def)+

lemma markCommentsAsRead_publishes_nothing:
  "published (fst (markCommentsAsRead w ids)) = []"
  by (simp add: fst_markCommentsAsRead published_simps split: http.splits)

lemma markCommentsAsRead_creates_nothing:
  "memories (fst (markCommentsAsRead w ids)) = []"
  by (simp add: fst_markCommentsAsRead memories_simps split: http.splits)

lemma iceCream_truthy: "giftName gift = ''Ice Cream'' \<Longrightarrow> truthy (shouldTranscribe w gift)"
  by (simp add: shouldTranscribe_def truthy_def)

lemma draw_does_not_matter:
  "generateSpeech (w\<lparr>w_random := r\<rparr>) t = generateSpeech w t"
  "markGiftsAsRead (w\<lparr>w_random := r\<rparr>) ids = markGiftsAsRead w ids"
  by (simp_all add: generateSpeech_def markGiftsAsRead_def)

lemma iceCream_draw:
  "giftName gift = ''Ice Cream'' \<Longrightarrow> processGift rt (w\<lparr>w_random := r\<rparr>) gift = processGift rt w gift"
  by (simp add: processGift_def shouldTranscribe_def truthy_def draw_does_not_matter Let_def
      cong: option.case_cong if_cong)

lemma iceCream_spoken:
  assumes "giftName gift = ''Ice Cream''" and "w_composeState w = Inr ()"
    and "w_generateText w aikoGiftResponseTemplate = Inr s"
    and "w_parseJSONObjectFromText w s = Some p"
  shows "GenerateSpeech (parsed_text p) \<in> set (fst (processGift rt w gift))"
  using assms iceCream_truthy[OF assms(1), of w]
  by (simp add: processGift_def speech_simps io_simps Let_def split: sum.splits speech.splits)

lemma iceCream_published:
  assumes "giftName gift = ''Ice Cream''"
    and "b \<in> set (published (fst (processGift rt w gift)))"
  shows "\<exists>s p url. w_generateText w aikoGiftResponseTemplate = Inr s
           \<and> w_parseJSONObjectFromText w s = Some p
           \<and> w_generateSpeech w (parsed_text p) = Uploaded url
           \<and> GenerateSpeech (parsed_text p) \<in> set (fst (processGift rt w gift))
           \<and> audioUrl b = Some url"
  using assms(2) iceCream_truthy[OF assms(1), of w]
  by (auto simp: processGift_def speech_simps mark_simps giftBody_def
      io_simps published_simps Let_def
      split: sum.splits speech.splits option.splits http.splits if_splits prod.splits)

lemma animation_published_in_catalog:
  "PostUpdateAnimation a \<in> set (fst (generateAndSharePeriodicAnimation rt w))
     \<Longrightarrow> a \<in> set getAllAnimations"
  by (auto simp: generateAndSharePeriodicAnimation_def io_simps Let_def
      split: sum.splits if_splits http.splits prod.splits)

lemma animation_job_returns: "snd (generateAndSharePeriodicAnimation rt w) = Inr ()"
  by (simp add: generateAndSharePeriodicAnimation_def io_simps Let_def
      split: sum.splits http.splits)

lemma animation_job_trace:
  assumes "w_composeState w = Inr ()" and "w_generateText w aikoAnimationTemplate = Inr s"
  shows "fst (generateAndSharePeriodicAnimation rt w) =
     (if toLowerCase (trim s) \<in> set getAllAnimations
      then ComposeState # GenerateText aikoAnimationTemplate
             # PostUpdateAnimation (toLowerCase (trim s))
             # (case w_postUpdateAnimation w of
                  Unreachable e \<Rightarrow> [ConsoleError ''Error in generateAndSharePeriodicAnimation:'']
                | Reply st b \<Rightarrow>
                    if ok st then [] else [ConsoleError ''Failed to post periodic animation:''])
      else [ComposeState, GenerateText aikoAnimationTemplate,
            ConsoleWarn (''Invalid animation generated: '' @ toLowerCase (trim s)
                         @ '', defaulting to '' @ [CHR 0x27] @ ''idle'' @ [CHR 0x27])])"
  using assms
  by (simp add: generateAndSharePeriodicAnimation_def io_simps Let_def
      split: http.splits)

lemma createCommentMemory_throws:
  "createCommentMemory w scopeBeforeSelection c
     = ([], Inl (ReferenceError ''Cannot access userMessage before initialization''))"
  by (simp add: createCommentMemory_def scopeBeforeSelection_def readBinding_def io_defs)

lemma allSettled_loop:
  "allSettled (map (createCommentMemory w scopeBeforeSelection) comments)
     = ([], Inr (replicate (length comments)
                   (Inl (ReferenceError ''Cannot access userMessage before initialization''))))"
  by (induction comments) (simp_all add: allSettled_def createCommentMemory_throws)

lemma respondToSelected_memories:
  "memories (fst (respondToSelected rt w c ids)) = []
   \<or> memories (fst (respondToSelected rt w c ids))
       = [\<lparr>memory_user = comment_user c, memory_text = comment_message c\<rparr>]"
  by (simp add: respondToSelected_def generateResponse_def speech_simps io_simps
      memories_simps Let_def split: sum.splits speech.splits option.splits http.splits prod.splits)

lemma find_Some_first:
  "find P xs = Some x \<Longrightarrow> x \<in> set xs \<and> P x"
  by (induction xs) (auto split: if_splits)

lemma find_same_id:
  "find (\<lambda>x. Some (comment_id x) = Some i) cs = Some c
     \<Longrightarrow> find (\<lambda>x. comment_id x = comment_id c) cs = Some c"
proof -
  assume f: "find (\<lambda>x. Some (comment_id x) = Some i) cs = Some c"
  from find_Some_first[OF f] have "comment_id c = i" by simp
  with f show ?thesis by simp
qed

lemma processComments_memories:
  "memories (fst (processComments rt w comments)) = []
   \<or> (\<exists>c\<in>set comments.
        memories (fst (processComments rt w comments))
          = [\<lparr>memory_user = comment_user c, memory_text = comment_message c\<rparr>]
        \<and> find (\<lambda>x. comment_id x = comment_id c) comments = Some c
        \<and> comment_id c \<noteq> [])"
proof (cases "memories (fst (processComments rt w comments)) = []")
  case True
  then show ?thesis by simp
next
  case False
  then obtain sel c where sel: "truthyId (Some sel)"
    and f: "find (\<lambda>x. Some (comment_id x) = Some sel) comments = Some c"
    and m: "memories (fst (processComments rt w comments))
              = memories (fst (respondToSelected rt w c (map comment_id comments)))"
    by (auto simp: processComments_def selectCommentToRespondTo_def snd_markCommentsAsRead
        markCommentsAsRead_creates_nothing allSettled_loop io_simps memories_simps Let_def
        truthyId_def split: sum.splits option.splits if_splits)
  from find_Some_first[OF f] have c: "c \<in> set comments" "comment_id c = sel" by auto
  from sel c have ne: "comment_id c \<noteq> []" by (simp add: truthyId_def)
  from False m respondToSelected_memories[of rt w c "map comment_id comments"]
  have "memories (fst (processComments rt w comments))
          = [\<lparr>memory_user = comment_user c, memory_text = comment_message c\<rparr>]"
    by auto
  with c(1) find_same_id[OF f] ne show ?thesis by blast
qed

lemma batch_of_two_one_memory:
  "memories (fst (processComments aiko allSucceed [comment1, comment2]))
     = [\<lparr>memory_user = ''u2'', memory_text = ''nice stream''\<rparr>]"
  by code_simp

lemma other_jobs_leave_client:
  "n \<noteq> ''readChatAndReply'' \<Longrightarrow> n \<noteq> ''readAgentChatAndReply''
     \<Longrightarrow> snd (runTask rt w ws n c) = c"
  by (simp add: runTask_def)

lemma readChatAndReply_leaves_message_id:
  "lastAgentChatMessageId (snd (readChatAndReply rt w c)) = lastAgentChatMessageId c"
  by (simp add: readChatAndReply_def Let_def split: sum.splits)

lemma fetchUnreadComments_returns:
  "\<exists>batch. snd (fetchUnreadComments w since) = Inr batch"
  by (simp add: fetchUnreadComments_def io_simps split: option.splits http.splits)

lemma fetchUnreadComments_failed:
  assumes "since = None \<or> (\<exists>e. w_getUnreadComments w = Unreachable e)
           \<or> (\<exists>st b. w_getUnreadComments w = Reply st b \<and> \<not> ok st)"
  shows "snd (fetchUnreadComments w since) = Inr (Some [])"
  using assms
  by (auto simp: fetchUnreadComments_def io_simps split: option.splits http.splits)

lemma readChatAndReply_returns: "snd (fst (readChatAndReply rt w c)) = Inr ()"
  by (simp add: readChatAndReply_def Let_def split: sum.splits)

lemma readChatAndReply_client:
  assumes "snd (fetchUnreadComments w (lastProcessedTimestamp c)) = Inr batch"
  shows "snd (readChatAndReply rt w c) =
           (case batch of
              None \<Rightarrow> c\<lparr>lastProcessedTimestamp := Some (w_now w)\<rparr>
            | Some cs \<Rightarrow>
                if cs = [] then c\<lparr>lastProcessedTimestamp := Some (w_now w)\<rparr>
                else (case snd (processComments rt w cs) of
                        Inr ids \<Rightarrow> c\<lparr>lastProcessedTimestamp := Some (w_now w)\<rparr>
                      | Inl e \<Rightarrow> c))"
  using assms
  by (simp add: readChatAndReply_def Let_def io_simps split: sum.splits option.splits)

lemma processComments_empty: "processComments rt w [] = ([], Inr [])"
  by (simp add: processComments_def ret_def)

lemma processComments_single:
  assumes "comment_id x \<noteq> []"
  shows "processComments rt w [x]
           = (fst (markCommentsAsRead w [comment_id x])
              @ fst (respondToSelected rt w x [comment_id x]),
              snd (respondToSelected rt w x [comment_id x]))"
  using assms
  by (simp add: processComments_def snd_markCommentsAsRead allSettled_def
      createCommentMemory_throws truthyId_def io_simps Let_def prod_eq_iff)

lemma processComments_single_empty_id:
  assumes "comment_id x = []"
  shows "processComments rt w [x] = (fst (markCommentsAsRead w [[]]), Inr [[]])"
  using assms
  by (simp add: processComments_def snd_markCommentsAsRead allSettled_def
      createCommentMemory_throws truthyId_def io_simps Let_def prod_eq_iff)

lemma respondToSelected_no_selection_call:
  "GenerateText aikoSelectCommentTemplate \<notin> set (fst (respondToSelected rt w x ids))"
  by (simp add: respondToSelected_def generateResponse_def speech_simps io_simps Let_def
      split: sum.splits speech.splits option.splits http.splits prod.splits)

lemma processComments_single_not_asked:
  "GenerateText aikoSelectCommentTemplate \<notin> set (fst (processComments rt w [x]))"
proof (cases "comment_id x = []")
  case True
  then show ?thesis
    by (simp add: processComments_single_empty_id markCommentsAsRead_asks_nothing)
next
  case False
  then show ?thesis
    by (simp add: processComments_single markCommentsAsRead_asks_nothing
        respondToSelected_no_selection_call)
qed

lemma processComments_many_composes:
  assumes "length cs > 1"
  shows "\<exists>rest. fst (processComments rt w cs)
                   = fst (markCommentsAsRead w (map comment_id cs)) @ ComposeState # rest"
proof -
  from assms have ne: "cs \<noteq> []" "length cs \<noteq> Suc 0" by auto
  then show ?thesis
    by (simp add: processComments_def selectCommentToRespondTo_def snd_markCommentsAsRead
        allSettled_loop io_simps Let_def split: sum.splits)
qed

lemma processComments_many_asked:
  assumes "length cs > 1" and "w_composeState w = Inr ()"
  shows "GenerateText aikoSelectCommentTemplate \<in> set (fst (processComments rt w cs))"
proof -
  from assms(1) have ne: "cs \<noteq> []" "length cs \<noteq> Suc 0" by auto
  with assms(2) show ?thesis
    by (simp add: processComments_def selectCommentToRespondTo_def snd_markCommentsAsRead
        allSettled_loop io_simps Let_def split: sum.splits)
qed

lemma find_None_iff_id:
  "find (\<lambda>comment. Some (comment_id comment) = Some sel) cs = None
     \<longleftrightarrow> sel \<notin> comment_id ` set cs"
  by (induction cs) auto

lemma processComments_many_none:
  assumes "length cs > 1" and "w_composeState w = Inr ()"
    and "w_generateText w aikoSelectCommentTemplate = Inr sel"
    and "sel = ''NONE'' \<or> sel \<notin> comment_id ` set cs"
  shows "processComments rt w cs
           = (fst (markCommentsAsRead w (map comment_id cs))
              @ [ComposeState, GenerateText aikoSelectCommentTemplate]
              @ (if sel = ''NONE'' \<or> sel = [] then []
                 else [ConsoleError ''Selected comment not found:'']),
              Inr (map comment_id cs))"
proof -
  from assms(1) have ne: "cs \<noteq> []" "length cs \<noteq> Suc 0" by auto
  with assms(2-4) find_None_iff_id[of sel cs] show ?thesis
    by (auto simp: processComments_def selectCommentToRespondTo_def snd_markCommentsAsRead
        allSettled_loop truthyId_def io_simps Let_def prod_eq_iff)
qed

lemma processComments_many_selected:
  assumes "length cs > 1" and "w_composeState w = Inr ()"
    and "w_generateText w aikoSelectCommentTemplate = Inr sel"
    and "sel \<noteq> ''NONE''" and "sel \<noteq> []"
    and "find (\<lambda>comment. comment_id comment = sel) cs = Some x"
  shows "processComments rt w cs
           = (fst (markCommentsAsRead w (map comment_id cs))
              @ [ComposeState, GenerateText aikoSelectCommentTemplate]
              @ fst (respondToSelected rt w x (map comment_id cs)),
              snd (respondToSelected rt w x (map comment_id cs)))"
proof -
  from assms(1) have ne: "cs \<noteq> []" "length cs \<noteq> Suc 0" by auto
  with assms(2-6) show ?thesis
    by (simp add: processComments_def selectCommentToRespondTo_def snd_markCommentsAsRead
        allSettled_loop truthyId_def io_simps Let_def prod_eq_iff)
qed

lemma processComments_many_published:
  assumes "length cs > 1" and "published (fst (processComments rt w cs)) \<noteq> []"
  shows "\<exists>sel y. w_generateText w aikoSelectCommentTemplate = Inr sel
           \<and> sel \<noteq> ''NONE''
           \<and> find (\<lambda>comment. comment_id comment = sel) cs = Some y"
proof -
  from assms(1) have ne: "cs \<noteq> []" "length cs \<noteq> Suc 0" by auto
  with assms(2) show ?thesis
    by (auto simp: processComments_def selectCommentToRespondTo_def snd_markCommentsAsRead
        markCommentsAsRead_publishes_nothing allSettled_loop truthyId_def io_simps
        published_simps Let_def
        split: sum.splits option.splits if_splits)
qed

lemma readChatAndReply_logged:
  assumes "snd (fetchUnreadComments w (lastProcessedTimestamp c)) = Inr batch"
    and "batch = Some cs" and "cs \<noteq> []" and "snd (processComments rt w cs) = Inl e"
  shows "fst (fst (readChatAndReply rt w c))
           = fst (fetchUnreadComments w (lastProcessedTimestamp c))
             @ fst (processComments rt w cs)
             @ [ConsoleError ''Error in readChatAndReply:'']"
  using assms by (simp add: readChatAndReply_def Let_def io_simps)

lemma fetchUnreadComments_publishes_nothing:
  "published (fst (fetchUnreadComments w since)) = []"
  by (simp add: fetchUnreadComments_def io_simps published_simps
      split: option.splits http.splits)

lemma readChatAndReply_empty_batch:
  assumes "snd (fetchUnreadComments w (lastProcessedTimestamp c)) = Inr (Some [])"
  shows "fst (fst (readChatAndReply rt w c)) = fst (fetchUnreadComments w (lastProcessedTimestamp c))"
  using assms by (simp add: readChatAndReply_def Let_def io_simps)

text \<open>The three jobs that catch a failure of the Speech Service publish whatever the
  synthesis returns, without audio when it fails.\<close>

lemma freshThought_survives_speech:
  assumes "w_composeState w = Inr ()" and "w_generateText w freshThoughtTemplate = Inr t"
    and "t \<noteq> []"
  shows "published (fst (generateAndShareFreshThought rt w))
           = [(emptyResponse (rt_agentId rt) (Some t))
                \<lparr>thought := Some True,
                 audioUrl := (case w_generateSpeech w (Some t) of
                                Uploaded url \<Rightarrow> Some url | _ \<Rightarrow> None)\<rparr>]"
  using assms
  by (cases "w_generateSpeech w (Some t)"; cases "w_postAIResponse w")
     (simp_all add: generateAndShareFreshThought_def generateFreshThought_def speech_simps
        io_simps published_simps)

lemma roomReply_survives_speech:
  assumes "w_composeState w = Inr ()" and "w_generateText w roomChatTemplate = Inr s"
    and "w_parseJSONObjectFromText w s = Some p" and "parsed_text p = Some t" and "t \<noteq> []"
  shows "PostRoomMessage (Some t)
           (case w_generateSpeech w (Some t) of Uploaded url \<Rightarrow> Some url | _ \<Rightarrow> None)
         \<in> set (fst (replyInRoom rt w))"
  using assms
  by (cases "w_generateSpeech w (Some t)"; cases "w_postRoomMessage w")
     (simp_all add: replyInRoom_def speech_simps io_simps)

lemma commentReply_survives_speech:
  assumes "w_ensureConnection w = Inr ()" and "w_createMemory w = Inr ()"
    and "w_composeState w = Inr ()" and "w_generateMessageResponse w = Inr (Some r)"
    and "w_databaseLog w = Inr ()"
    and "w_generateText w aikoMessageAnimationTemplate = Inr a"
  shows "published (fst (respondToSelected rt w x ids))
           = [commentBody rt x r (map_option trim (content_text r)) a
                (case w_generateSpeech w (map_option trim (content_text r)) of
                   Uploaded url \<Rightarrow> Some url | _ \<Rightarrow> None)]"
  using assms
  by (cases "w_generateSpeech w (map_option trim (content_text r))"; cases "w_postAIResponse w")
     (simp_all add: respondToSelected_def generateResponse_def speech_simps
        io_simps published_simps Let_def)

text \<open>
  The bookkeeping of \<open>processNextTask\<close>. A call returns normally whatever its job body
  does; when it started the task at position \<open>i\<close>, the registry afterwards is the one
  obtained by assigning \<open>lastRun\<close> the completion time and then clearing \<open>isRunning\<close>,
  and an exception of the body is on the console; a registry without a flagged task is
  left without a flagged task. In every interleaving of ticks and settling bodies the
  flagged tasks are exactly those whose body is outstanding, and the settling of a body
  does the same bookkeeping whether the body returned or threw.
\<close>

lemma catchBlock_cases:
  "catchBlock t Returned = []"
  "catchBlock t (Thrown e) = [ConsoleError (''Error executing task '' @ name t @ '':'')]"
  by (simp_all add: catchBlock_def)

text \<open>The order of the two assignments of the \<open>finally\<close> block: when \<open>lastRun\<close> has
  been written the task is still flagged; the flag is cleared after it.\<close>

lemma finally_order:
  assumes "i < length q" and "running (q ! i)"
  shows "lastRun (setLastRun i d q ! i) = Some d"
    and "running (setLastRun i d q ! i)"
    and "lastRun (clearRunning i (setLastRun i d q) ! i) = Some d"
    and "\<not> running (clearRunning i (setLastRun i d q) ! i)"
  using assms by (simp_all add: setLastRun_def clearRunning_def running_def)

lemma processNextTask_bookkeeping:
  "snd (fst (processNextTask rt now w ws d (q, c))) = Inr ()
   \<and> (snd (startTask now q) = Some i \<longrightarrow>
        fst (snd (processNextTask rt now w ws d (q, c)))
          = clearRunning i (setLastRun i d (fst (startTask now q)))
        \<and> lastRun (fst (snd (processNextTask rt now w ws d (q, c))) ! i) = Some d
        \<and> isRunning (fst (snd (processNextTask rt now w ws d (q, c))) ! i) = Some False
        \<and> (snd (fst (runTask rt w ws (name (q ! i)) c)) = Inl e \<longrightarrow>
             ConsoleError (''Error executing task '' @ name (q ! i) @ '':'')
               \<in> set (fst (fst (processNextTask rt now w ws d (q, c))))))
   \<and> ((\<forall>t\<in>set q. \<not> running t) \<longrightarrow>
        (\<forall>t\<in>set (fst (snd (processNextTask rt now w ws d (q, c)))). \<not> running t))
   \<and> flagsMatch (run evs)
   \<and> (k \<in> set (outstanding (run evs)) \<longrightarrow>
        lastRun (queue (step (run evs) (Settle k out d')) ! k) = Some d'
        \<and> isRunning (queue (step (run evs) (Settle k out d')) ! k) = Some False
        \<and> k \<notin> set (outstanding (step (run evs) (Settle k out d')))
        \<and> console (step (run evs) (Settle k out d')) = console (run evs) @ catchBlock (queue (run evs) ! k) out)
   \<and> (outstanding (run evs) = [] \<longrightarrow> (\<forall>t\<in>set (queue (run evs)). \<not> running t))"
proof (intro conjI impI)
  show "snd (fst (processNextTask rt now w ws d (q, c))) = Inr ()"
    by (rule processNextTask_returns)
next
  assume st: "snd (startTask now q) = Some i"
  show "fst (snd (processNextTask rt now w ws d (q, c)))
          = clearRunning i (setLastRun i d (fst (startTask now q)))"
    by (rule processNextTask_queue[OF st])
  have len: "i < length (fst (startTask now q))"
    using startTask_Some(1)[OF st] startTask_Some(4)[OF st] by simp
  show "lastRun (fst (snd (processNextTask rt now w ws d (q, c))) ! i) = Some d"
    by (simp add: processNextTask_queue[OF st] finish_nth(1)[OF len])
  show "isRunning (fst (snd (processNextTask rt now w ws d (q, c))) ! i) = Some False"
    by (simp add: processNextTask_queue[OF st] finish_nth(2)[OF len])
  assume "snd (fst (runTask rt w ws (name (q ! i)) c)) = Inl e"
  from processNextTask_logs[OF st this]
  show "ConsoleError (''Error executing task '' @ name (q ! i) @ '':'')
          \<in> set (fst (fst (processNextTask rt now w ws d (q, c))))"
    by simp
next
  assume "\<forall>t\<in>set q. \<not> running t"
  then show "\<forall>t\<in>set (fst (snd (processNextTask rt now w ws d (q, c)))). \<not> running t"
    by (rule processNextTask_quiet)
next
  show "flagsMatch (run evs)" by (rule flagsMatch_run)
next
  assume k: "k \<in> set (outstanding (run evs))"
  note sb = settle_bookkeeping[OF flagsMatch_run k]
  show "lastRun (queue (step (run evs) (Settle k out d')) ! k) = Some d'" by (rule sb(1))
  show "isRunning (queue (step (run evs) (Settle k out d')) ! k) = Some False" by (rule sb(2))
  show "k \<notin> set (outstanding (step (run evs) (Settle k out d')))" by (rule sb(3))
  show "console (step (run evs) (Settle k out d')) = console (run evs) @ catchBlock (queue (run evs) ! k) out"
    by (rule sb(4))
next
  assume "outstanding (run evs) = []"
  with flagsMatch_run[of evs] show "\<forall>t\<in>set (queue (run evs)). \<not> running t"
    by (auto simp: flagsMatch_iff in_set_conv_nth)
qed

lemma processNextTask_bookkeeping_example:
  "snd (startTask 1700000000000 taskQueue) = Some 0
   \<and> snd (fst (runTask aiko iceCreamWaiting (\<lambda>k. speechDown) (name (taskQueue ! 0)) freshClient))
       = Inl (Error ''Upload failed: Forbidden'')
   \<and> snd (fst (processNextTask aiko 1700000000000 iceCreamWaiting (\<lambda>k. speechDown) 1700000002000
                 (taskQueue, freshClient))) = Inr ()
   \<and> lastRun (fst (snd (processNextTask aiko 1700000000000 iceCreamWaiting (\<lambda>k. speechDown)
                          1700000002000 (taskQueue, freshClient))) ! 0) = Some 1700000002000
   \<and> isRunning (fst (snd (processNextTask aiko 1700000000000 iceCreamWaiting (\<lambda>k. speechDown)
                            1700000002000 (taskQueue, freshClient))) ! 0) = Some False
   \<and> ConsoleError (''Error executing task '' @ name (taskQueue ! 0) @ '':'')
       \<in> set (fst (fst (processNextTask aiko 1700000000000 iceCreamWaiting (\<lambda>k. speechDown)
                          1700000002000 (taskQueue, freshClient))))
   \<and> list_all (\<lambda>t. \<not> running t)
        (fst (snd (processNextTask aiko 1700000000000 iceCreamWaiting (\<lambda>k. speechDown)
                     1700000002000 (taskQueue, freshClient))))
   \<and> 1 \<in> set (outstanding (run [Tick 1700000000000, Tick 1700000001000]))
   \<and> lastRun (queue (step (run [Tick 1700000000000, Tick 1700000001000])
                  (Settle 1 Returned 1700000003000)) ! 1) = Some 1700000003000
   \<and> isRunning (queue (step (run [Tick 1700000000000, Tick 1700000001000])
                    (Settle 1 Returned 1700000003000)) ! 1) = Some False"
proof -
  have h1: "snd (startTask 1700000000000 taskQueue) = Some 0"
    by (simp add: sched_defs)
  have n: "name (taskQueue ! 0) = ''readGifts''"
    by (simp add: taskQueue_def task_def)
  have h2: "snd (fst (runTask aiko iceCreamWaiting (\<lambda>k. speechDown) (name (taskQueue ! 0)) freshClient))
              = Inl (Error ''Upload failed: Forbidden'')"
    unfolding n by (rule readGifts_throws)
  have h3: "\<forall>t\<in>set taskQueue. \<not> running t"
    by (simp add: taskQueue_def task_def running_def)
  have h4: "1 \<in> set (outstanding (run [Tick 1700000000000, Tick 1700000001000]))"
    by (simp add: sched_defs)
  note T = processNextTask_bookkeeping[of aiko 1700000000000 iceCreamWaiting "\<lambda>k. speechDown"
      1700000002000 taskQueue freshClient 0 "Error ''Upload failed: Forbidden''"
      "[Tick 1700000000000, Tick 1700000001000]" 1 Returned 1700000003000]
  from T h1 h2 h3 h4 show ?thesis
    unfolding list_all_iff by blast
qed

subsection \<open>C1: mutual exclusion of the jobs\<close>

text \<open>
  Claim C1 (global mutual exclusion) against the code: the predicate of
  \<open>processNextTask\<close> tests the flag of the candidate only, so a tick that arrives
  while the body of \<open>readGifts\<close> awaits the network starts \<open>readChatAndReply\<close>, and
  two tasks are flagged at once.
\<close>

theorem overlapping_ticks_run_two_jobs:
  "map name (filter running (queue (run [Tick 1700000000000, Tick 1700000001000])))
     = [''readGifts'', ''readChatAndReply'']
   \<and> runningCount (queue (run [Tick 1700000000000, Tick 1700000001000])) = 2
   \<and> outstanding (run [Tick 1700000000000, Tick 1700000001000]) = [0, 1]"
  by (simp add: runningCount_def sched_defs)

subsection \<open>C2: the selection made by a tick\<close>

text \<open>
  Claim C2 (tick selection). A task is eligible exactly when it is not running and
  \<open>now\<close> minus its \<open>lastRun\<close> is at least its \<open>minInterval\<close>, an absent \<open>lastRun\<close>
  being read as 0. So a task without \<open>lastRun\<close> that is not running is eligible as soon
  as \<open>now\<close> is at least its \<open>minInterval\<close>, and in every state of the fixed registry it
  is eligible at once at every reading of the clock from 90000 on, that is, at every
  reading that \<open>Date.now()\<close> gives after the first minute and a half of 1970. The tick
  selects the first eligible task in registry order and flags it; when no task is
  eligible the registry and the client are returned unchanged; with the seven names of
  the fixed registry all eligible, \<open>readGifts\<close> is selected.
\<close>

theorem tick_selection:
  "(eligible now t \<longleftrightarrow>
      \<not> running t \<and> minInterval t \<le> now - (case lastRun t of None \<Rightarrow> 0 | Some l \<Rightarrow> l))
   \<and> (lastRun t = None \<and> \<not> running t \<and> minInterval t \<le> now \<longrightarrow> eligible now t)
   \<and> (case findIndex (eligible now) q of
         None \<Rightarrow>
           (\<forall>t\<in>set q. \<not> eligible now t) \<and> startTask now q = (q, None)
           \<and> processNextTask rt now w ws d (q, c) = (ret (), q, c)
       | Some i \<Rightarrow>
           i < length q \<and> eligible now (q ! i) \<and> (\<forall>j<i. \<not> eligible now (q ! j))
           \<and> startTask now q = (q[i := (q ! i)\<lparr>isRunning := Some True\<rparr>], Some i))
   \<and> (map name q = map name taskQueue \<and> (\<forall>t\<in>set q. eligible now t) \<longrightarrow>
        map_option (\<lambda>i. name (q ! i)) (snd (startTask now q)) = Some ''readGifts'')
   \<and> (90000 \<le> now \<and> map minInterval q = map minInterval taskQueue \<longrightarrow>
        (\<forall>t\<in>set q. lastRun t = None \<and> \<not> running t \<longrightarrow> eligible now t))"
proof (intro conjI)
  show e: "eligible now t \<longleftrightarrow>
      \<not> running t \<and> minInterval t \<le> now - (case lastRun t of None \<Rightarrow> 0 | Some l \<Rightarrow> l)"
    by (simp add: eligible_def lastRunOrZero_def Let_def split: option.splits)
  show "lastRun t = None \<and> \<not> running t \<and> minInterval t \<le> now \<longrightarrow> eligible now t"
    by (simp add: e)
  show "case findIndex (eligible now) q of
         None \<Rightarrow>
           (\<forall>t\<in>set q. \<not> eligible now t) \<and> startTask now q = (q, None)
           \<and> processNextTask rt now w ws d (q, c) = (ret (), q, c)
       | Some i \<Rightarrow>
           i < length q \<and> eligible now (q ! i) \<and> (\<forall>j<i. \<not> eligible now (q ! j))
           \<and> startTask now q = (q[i := (q ! i)\<lparr>isRunning := Some True\<rparr>], Some i)"
  proof (cases "findIndex (eligible now) q")
    case None
    then show ?thesis
      by (simp add: findIndex_None[symmetric] processNextTask_idle startTask_def)
  next
    case (Some i)
    from findIndex_Some[OF Some] Some show ?thesis
      by (simp add: startTask_def)
  qed
  show "map name q = map name taskQueue \<and> (\<forall>t\<in>set q. eligible now t) \<longrightarrow>
        map_option (\<lambda>i. name (q ! i)) (snd (startTask now q)) = Some ''readGifts''"
  proof
    assume a: "map name q = map name taskQueue \<and> (\<forall>t\<in>set q. eligible now t)"
    then obtain x xs where q: "q = x # xs" and x: "name x = ''readGifts''"
      by (cases q) (auto simp: taskQueue_def task_def)
    with a have "eligible now x" by simp
    with q x show "map_option (\<lambda>i. name (q ! i)) (snd (startTask now q)) = Some ''readGifts''"
      by (simp add: startTask_def)
  qed
  show "90000 \<le> now \<and> map minInterval q = map minInterval taskQueue \<longrightarrow>
        (\<forall>t\<in>set q. lastRun t = None \<and> \<not> running t \<longrightarrow> eligible now t)"
  proof (intro impI ballI)
    fix u
    assume a: "90000 \<le> now \<and> map minInterval q = map minInterval taskQueue"
      and u: "u \<in> set q" and n: "lastRun u = None \<and> \<not> running u"
    from u have "minInterval u \<in> set (map minInterval q)" by simp
    with a have "minInterval u \<in> set (map minInterval taskQueue)" by simp
    then have "minInterval u \<le> 90000" by (auto simp: taskQueue_def task_def)
    with a n show "eligible now u"
      by (simp add: eligible_def lastRunOrZero_def Let_def)
  qed
qed

theorem tick_selection_witness:
  "eligible 1700000000000 (taskQueue ! 0)
   \<and> list_all (eligible 1700000000000) taskQueue
   \<and> findIndex (eligible 1700000000000) taskQueue = Some 0
   \<and> startTask 1700000000000 taskQueue
       = (taskQueue[0 := (taskQueue ! 0)\<lparr>isRunning := Some True\<rparr>], Some 0)
   \<and> map_option (\<lambda>i. name (taskQueue ! i)) (snd (startTask 1700000000000 taskQueue))
       = Some ''readGifts''
   \<and> findIndex (eligible 1700000000000) justRan = None
   \<and> processNextTask aiko 1700000000000 allSucceed (\<lambda>k. allSucceed) 1700000002000
        (justRan, freshClient)
       = (ret (), justRan, freshClient)"
proof -
  have h1: "lastRun (taskQueue ! 0) = None \<and> \<not> running (taskQueue ! 0)
            \<and> minInterval (taskQueue ! 0) \<le> 1700000000000"
    by (simp add: taskQueue_def task_def running_def)
  have h2: "findIndex (eligible 1700000000000) taskQueue = Some 0"
    by (simp add: sched_defs)
  have h4: "findIndex (eligible 1700000000000) justRan = None"
    by (simp add: justRan_def sched_defs)
  have h5: "(90000::int) \<le> 1700000000000 \<and> map minInterval taskQueue = map minInterval taskQueue"
    by simp
  have h6: "\<forall>t\<in>set taskQueue. lastRun t = None \<and> \<not> running t"
    by (simp add: taskQueue_def task_def running_def)
  have n: "name (taskQueue ! 0) = ''readGifts''"
    by (simp add: taskQueue_def task_def)
  note T1 = tick_selection[of 1700000000000 "taskQueue ! 0" taskQueue aiko allSucceed
      "\<lambda>k. allSucceed" 1700000002000 freshClient]
  note T2 = tick_selection[of 1700000000000 "taskQueue ! 0" justRan aiko allSucceed
      "\<lambda>k. allSucceed" 1700000002000 freshClient]
  from T1 h5 h6 have h3: "\<forall>t\<in>set taskQueue. eligible 1700000000000 t" by blast
  from T1 h1 have e: "eligible 1700000000000 (taskQueue ! 0)" by blast
  from T1 h2 have s: "startTask 1700000000000 taskQueue
       = (taskQueue[0 := (taskQueue ! 0)\<lparr>isRunning := Some True\<rparr>], Some 0)"
    by simp
  from T1 h3 have r: "map_option (\<lambda>i. name (taskQueue ! i)) (snd (startTask 1700000000000 taskQueue))
       = Some ''readGifts''" by blast
  from T2 h4 have p: "processNextTask aiko 1700000000000 allSucceed (\<lambda>k. allSucceed) 1700000002000
        (justRan, freshClient) = (ret (), justRan, freshClient)"
    by simp
  from e h3 h2 s r h4 p show ?thesis by (simp add: list_all_iff)
qed

subsection \<open>C3: bookkeeping and error isolation\<close>

text \<open>
  Claim C3 (unconditional bookkeeping and error isolation) against the code. The
  bookkeeping itself is unconditional (\<open>processNextTask_bookkeeping\<close>), but a completed
  tick can leave a task flagged: the tick that started \<open>readChatAndReply\<close> while the
  body of \<open>readGifts\<close> was outstanding completes, writes \<open>lastRun\<close> and clears the flag
  of its own task, and \<open>readGifts\<close> is still flagged. The same holds for the whole call
  of \<open>processNextTask\<close> made on the registry in which the earlier tick has flagged
  \<open>readGifts\<close>.
\<close>

theorem completed_tick_leaves_other_job_flagged:
  "outstanding (run [Tick 1700000000000, Tick 1700000001000, Settle 1 Returned 1700000003000])
     = [0]
   \<and> lastRun (queue (run [Tick 1700000000000, Tick 1700000001000,
                          Settle 1 Returned 1700000003000]) ! 1) = Some 1700000003000
   \<and> isRunning (queue (run [Tick 1700000000000, Tick 1700000001000,
                            Settle 1 Returned 1700000003000]) ! 1) = Some False
   \<and> map name (filter running (queue (run [Tick 1700000000000, Tick 1700000001000,
                                           Settle 1 Returned 1700000003000])))
       = [''readGifts'']
   \<and> snd (startTask 1700000001000 (fst (startTask 1700000000000 taskQueue))) = Some 1
   \<and> snd (fst (processNextTask aiko 1700000001000 allSucceed (\<lambda>k. allSucceed) 1700000003000
                 (fst (startTask 1700000000000 taskQueue), freshClient))) = Inr ()
   \<and> map name (filter running
        (fst (snd (processNextTask aiko 1700000001000 allSucceed (\<lambda>k. allSucceed) 1700000003000
                     (fst (startTask 1700000000000 taskQueue), freshClient)))))
       = [''readGifts'']"
proof -
  have q1: "fst (startTask 1700000000000 taskQueue)
              = taskQueue[0 := (taskQueue ! 0)\<lparr>isRunning := Some True\<rparr>]"
    by (simp add: sched_defs)
  have s: "snd (startTask 1700000001000 (fst (startTask 1700000000000 taskQueue))) = Some 1"
    by (simp add: sched_defs)
  have r: "snd (fst (processNextTask aiko 1700000001000 allSucceed (\<lambda>k. allSucceed) 1700000003000
                 (fst (startTask 1700000000000 taskQueue), freshClient))) = Inr ()"
    by (rule processNextTask_returns)
  have f: "map name (filter running
        (fst (snd (processNextTask aiko 1700000001000 allSucceed (\<lambda>k. allSucceed) 1700000003000
                     (fst (startTask 1700000000000 taskQueue), freshClient)))))
       = [''readGifts'']"
    unfolding processNextTask_queue[OF s]
    by (simp add: sched_defs)
  have i: "outstanding (run [Tick 1700000000000, Tick 1700000001000, Settle 1 Returned 1700000003000])
     = [0]
   \<and> lastRun (queue (run [Tick 1700000000000, Tick 1700000001000,
                          Settle 1 Returned 1700000003000]) ! 1) = Some 1700000003000
   \<and> isRunning (queue (run [Tick 1700000000000, Tick 1700000001000,
                            Settle 1 Returned 1700000003000]) ! 1) = Some False
   \<and> map name (filter running (queue (run [Tick 1700000000000, Tick 1700000001000,
                                           Settle 1 Returned 1700000003000])))
       = [''readGifts'']"
    by (simp add: sched_defs)
  from i s r f show ?thesis by simp
qed

subsection \<open>C4: failure of the Speech Service\<close>

text \<open>
  Claim C4 (speech failure is non-fatal) against the code: \<open>processGift\<close> awaits
  \<open>generateSpeech\<close> outside any \<open>try\<close>. When the upload of the audio is refused,
  the response to an Ice Cream gift is never published and the gift is not marked read;
  \<open>readGifts\<close> throws and the gift after it is not processed. The three other jobs that speak catch
  the failure and publish without audio.
\<close>

theorem gift_speech_failure_aborts:
  "processGift aiko speechDown iceCream
     = ([CreateMemory (giftMemory iceCream), ComposeState, GenerateText aikoGiftResponseTemplate,
         GenerateSpeech (Some ''thanks''), ConsoleError ''upload failed''],
        Inl (Error ''Upload failed: Forbidden''))
   \<and> published (fst (processGift aiko speechDown iceCream)) = []
   \<and> readGifts aiko twoGiftsWaiting (\<lambda>k. speechDown)
     = ([GetUnreadGifts, CreateMemory (giftMemory iceCream), ComposeState,
         GenerateText aikoGiftResponseTemplate, GenerateSpeech (Some ''thanks''),
         ConsoleError ''upload failed''],
        Inl (Error ''Upload failed: Forbidden''))
   \<and> map audioUrl (published (fst (generateAndShareFreshThought aiko speechDown))) = [None]
   \<and> map audioUrl (published (fst (processComments aiko speechDown [comment1]))) = [None]
   \<and> replyInRoom aiko speechDown
     = ([ComposeState, GenerateText roomChatTemplate, GenerateSpeech (Some ''thanks''),
         ConsoleError ''upload failed'', ConsoleError ''Failed to generate speech'',
         PostRoomMessage (Some ''thanks'') None],
        Inr True)"
proof (intro conjI)
  show g: "processGift aiko speechDown iceCream
     = ([CreateMemory (giftMemory iceCream), ComposeState, GenerateText aikoGiftResponseTemplate,
         GenerateSpeech (Some ''thanks''), ConsoleError ''upload failed''],
        Inl (Error ''Upload failed: Forbidden''))"
    by (simp add: processGift_def shouldTranscribe_def truthy_def generateSpeech_def
        io_defs input_defs)
  show "published (fst (processGift aiko speechDown iceCream)) = []"
    by (simp add: g published_simps)
  show "readGifts aiko twoGiftsWaiting (\<lambda>k. speechDown)
     = ([GetUnreadGifts, CreateMemory (giftMemory iceCream), ComposeState,
         GenerateText aikoGiftResponseTemplate, GenerateSpeech (Some ''thanks''),
         ConsoleError ''upload failed''],
        Inl (Error ''Upload failed: Forbidden''))"
    by (simp add: readGifts_def fetchUnreadGifts_def g io_defs twoGiftsWaiting_def)
  show "map audioUrl (published (fst (generateAndShareFreshThought aiko speechDown))) = [None]"
    by (simp add: generateAndShareFreshThought_def generateFreshThought_def generateSpeech_def
        emptyResponse_def io_simps published_simps input_defs)
  show "map audioUrl (published (fst (processComments aiko speechDown [comment1]))) = [None]"
    by (simp add: processComments_def respondToSelected_def generateResponse_def
        commentBody_def mark_simps allSettled_def createCommentMemory_def
        readBinding_def scopeBeforeSelection_def truthyId_def Let_def trim_def isWhiteSpace_def
        generateSpeech_def emptyResponse_def io_simps published_simps input_defs)
  show "replyInRoom aiko speechDown
     = ([ComposeState, GenerateText roomChatTemplate, GenerateSpeech (Some ''thanks''),
         ConsoleError ''upload failed'', ConsoleError ''Failed to generate speech'',
         PostRoomMessage (Some ''thanks'') None],
        Inr True)"
    by (simp add: replyInRoom_def generateSpeech_def io_defs input_defs)
qed

subsection \<open>C5: ownership of the watermark and of the peer-message id\<close>

text \<open>
  Claim C5 (ownership of the watermark and of the last peer-message id) against the
  code: after it has posted its reply, \<open>readAgentChatAndReply\<close> assigns
  \<open>lastProcessedTimestamp\<close>, the watermark that only \<open>readChatAndReply\<close> reads.
\<close>

theorem peer_room_job_moves_watermark:
  "lastProcessedTimestamp freshClient = Some 1700000000000
   \<and> runTask aiko peerSpoke (\<lambda>k. allSucceed) ''readAgentChatAndReply'' freshClient
     = (([FetchRoomMessages, ComposeState, GenerateText roomChatTemplate,
          GenerateSpeech (Some ''thanks''),
          PostRoomMessage (Some ''thanks'') (Some ''https://aikotv.b-cdn.net/agent-1.mp3'')],
         Inr ()),
        \<lparr>lastProcessedTimestamp = Some 1700000002000, lastAgentChatMessageId = Some ''m7''\<rparr>)"
  by code_simp

subsection \<open>C6: the comment watermark\<close>

text \<open>
  The watermark does not advance on every invocation: with two comments waiting and the
  Generation Service down, \<open>processComments\<close> throws, \<open>readChatAndReply\<close> logs the
  error and the client keeps the watermark it had.
\<close>

theorem processing_failure_keeps_watermark:
  "lastProcessedTimestamp freshClient = Some 1700000000000
   \<and> w_now generationDown = 1700000002000
   \<and> readChatAndReply aiko generationDown freshClient
     = (([GetUnreadComments 1700000000000, MarkCommentsAsRead [''c1'', ''c2''], ComposeState,
          GenerateText aikoSelectCommentTemplate, ConsoleError ''Error in readChatAndReply:''],
         Inr ()),
        freshClient)"
  by code_simp

text \<open>
  Claim C6 (the comment watermark), amended: \<open>readChatAndReply\<close> never throws. The
  fetch of the unread comments never throws either, and when it fails (no watermark to
  send, no answer, or a status that is not ok) it yields an empty batch. The job sets the
  watermark to the current time when the batch is absent or empty, hence also when the
  fetch failed, and when \<open>processComments\<close> returns; when \<open>processComments\<close> throws,
  the error is logged and the client is left as it was.
\<close>

theorem watermark_advance:
  "snd (fst (readChatAndReply rt w c)) = Inr ()
   \<and> (\<exists>batch. snd (fetchUnreadComments w (lastProcessedTimestamp c)) = Inr batch
        \<and> ((lastProcessedTimestamp c = None \<or> (\<exists>e. w_getUnreadComments w = Unreachable e)
             \<or> (\<exists>st b. w_getUnreadComments w = Reply st b \<and> \<not> ok st)) \<longrightarrow> batch = Some [])
        \<and> snd (readChatAndReply rt w c) =
            (case batch of
               None \<Rightarrow> c\<lparr>lastProcessedTimestamp := Some (w_now w)\<rparr>
             | Some cs \<Rightarrow>
                 if cs = [] then c\<lparr>lastProcessedTimestamp := Some (w_now w)\<rparr>
                 else (case snd (processComments rt w cs) of
                         Inr ids \<Rightarrow> c\<lparr>lastProcessedTimestamp := Some (w_now w)\<rparr>
                       | Inl e \<Rightarrow> c))
        \<and> (\<forall>cs e. batch = Some cs \<and> cs \<noteq> [] \<and> snd (processComments rt w cs) = Inl e \<longrightarrow>
             fst (fst (readChatAndReply rt w c))
               = fst (fetchUnreadComments w (lastProcessedTimestamp c))
                 @ fst (processComments rt w cs)
                 @ [ConsoleError ''Error in readChatAndReply:'']))"
proof -
  obtain batch where b: "snd (fetchUnreadComments w (lastProcessedTimestamp c)) = Inr batch"
    using fetchUnreadComments_returns by blast
  have l: "\<forall>cs e. batch = Some cs \<and> cs \<noteq> [] \<and> snd (processComments rt w cs) = Inl e \<longrightarrow>
             fst (fst (readChatAndReply rt w c))
               = fst (fetchUnreadComments w (lastProcessedTimestamp c))
                 @ fst (processComments rt w cs)
                 @ [ConsoleError ''Error in readChatAndReply:'']"
    using readChatAndReply_logged[OF b] by blast
  have "(lastProcessedTimestamp c = None \<or> (\<exists>e. w_getUnreadComments w = Unreachable e)
             \<or> (\<exists>st b. w_getUnreadComments w = Reply st b \<and> \<not> ok st)) \<longrightarrow> batch = Some []"
    using fetchUnreadComments_failed[of "lastProcessedTimestamp c" w] b by auto
  with b l readChatAndReply_client[OF b] readChatAndReply_returns show ?thesis by blast
qed

theorem watermark_advance_witness:
  "w_getUnreadComments gatewayDown = Unreachable (Error ''ECONNREFUSED'')
   \<and> snd (fetchUnreadComments gatewayDown (lastProcessedTimestamp freshClient)) = Inr (Some [])
   \<and> snd (fst (readChatAndReply aiko gatewayDown freshClient)) = Inr ()
   \<and> snd (readChatAndReply aiko gatewayDown freshClient)
       = freshClient\<lparr>lastProcessedTimestamp := Some (w_now gatewayDown)\<rparr>
   \<and> w_now gatewayDown = 1700000002000"
proof -
  have u: "w_getUnreadComments gatewayDown = Unreachable (Error ''ECONNREFUSED'')"
    by (simp add: gatewayDown_def)
  have n: "w_now gatewayDown = 1700000002000"
    by (simp add: gatewayDown_def allSucceed_def)
  from watermark_advance[of aiko gatewayDown freshClient] u
  obtain batch where b: "snd (fetchUnreadComments gatewayDown (lastProcessedTimestamp freshClient)) = Inr batch"
    and e: "batch = Some []"
    and r: "snd (fst (readChatAndReply aiko gatewayDown freshClient)) = Inr ()"
    and s: "snd (readChatAndReply aiko gatewayDown freshClient) =
            (case batch of
               None \<Rightarrow> freshClient\<lparr>lastProcessedTimestamp := Some (w_now gatewayDown)\<rparr>
             | Some cs \<Rightarrow>
                 if cs = [] then freshClient\<lparr>lastProcessedTimestamp := Some (w_now gatewayDown)\<rparr>
                 else (case snd (processComments aiko gatewayDown cs) of
                         Inr ids \<Rightarrow> freshClient\<lparr>lastProcessedTimestamp := Some (w_now gatewayDown)\<rparr>
                       | Inl e \<Rightarrow> freshClient))"
    by blast
  from b e r s u n show ?thesis by simp
qed

subsection \<open>C7: the selection of a comment\<close>

text \<open>
  Claim C7 (comment selection). An empty batch has no effect at all, and a job run that
  fetched an empty batch publishes nothing. A batch of one comment never leads to a
  selection request to the Generation Service, and the comment, whose id the comment
  store issues and is not the empty string, is marked read and replied to. For a batch
  of more than one comment the batch is marked read and the state composed, and then
  the Generation Service is asked to select; nothing is published unless it answers,
  other than with \<open>NONE\<close>, the id of a comment of the batch: when it answers \<open>NONE\<close>
  or a string that is the id of no comment, the batch is only marked read; when it
  answers the id of a comment, the first comment with that id is replied to.
\<close>

theorem comment_selection:
  "processComments rt w [] = ([], Inr [])
   \<and> (snd (fetchUnreadComments w (lastProcessedTimestamp c)) = Inr (Some []) \<longrightarrow>
        published (fst (fst (readChatAndReply rt w c))) = [])
   \<and> GenerateText aikoSelectCommentTemplate \<notin> set (fst (processComments rt w [x]))
   \<and> (comment_id x \<noteq> [] \<longrightarrow>
        processComments rt w [x]
          = (fst (markCommentsAsRead w [comment_id x])
             @ fst (respondToSelected rt w x [comment_id x]),
             snd (respondToSelected rt w x [comment_id x])))
   \<and> (length cs > 1 \<longrightarrow>
        (\<exists>rest. fst (processComments rt w cs)
                  = fst (markCommentsAsRead w (map comment_id cs)) @ ComposeState # rest)
        \<and> (w_composeState w = Inr () \<longrightarrow>
             GenerateText aikoSelectCommentTemplate \<in> set (fst (processComments rt w cs)))
        \<and> (published (fst (processComments rt w cs)) \<noteq> [] \<longrightarrow>
             (\<exists>sel y. w_generateText w aikoSelectCommentTemplate = Inr sel
                \<and> sel \<noteq> ''NONE''
                \<and> find (\<lambda>comment. comment_id comment = sel) cs = Some y)))
   \<and> (length cs > 1 \<and> w_composeState w = Inr ()
        \<and> w_generateText w aikoSelectCommentTemplate = Inr sel
        \<and> (sel = ''NONE'' \<or> sel \<notin> comment_id ` set cs) \<longrightarrow>
        processComments rt w cs
          = (fst (markCommentsAsRead w (map comment_id cs))
             @ [ComposeState, GenerateText aikoSelectCommentTemplate]
             @ (if sel = ''NONE'' \<or> sel = [] then []
                else [ConsoleError ''Selected comment not found:'']),
             Inr (map comment_id cs))
        \<and> published (fst (processComments rt w cs)) = [])
   \<and> (length cs > 1 \<and> w_composeState w = Inr ()
        \<and> w_generateText w aikoSelectCommentTemplate = Inr sel
        \<and> sel \<noteq> ''NONE'' \<and> sel \<noteq> []
        \<and> find (\<lambda>comment. comment_id comment = sel) cs = Some y \<longrightarrow>
        processComments rt w cs
          = (fst (markCommentsAsRead w (map comment_id cs))
             @ [ComposeState, GenerateText aikoSelectCommentTemplate]
             @ fst (respondToSelected rt w y (map comment_id cs)),
             snd (respondToSelected rt w y (map comment_id cs))))"
proof (intro conjI impI)
  show "processComments rt w [] = ([], Inr [])" by (rule processComments_empty)
next
  assume "snd (fetchUnreadComments w (lastProcessedTimestamp c)) = Inr (Some [])"
  then show "published (fst (fst (readChatAndReply rt w c))) = []"
    by (simp add: readChatAndReply_empty_batch fetchUnreadComments_publishes_nothing)
next
  show "GenerateText aikoSelectCommentTemplate \<notin> set (fst (processComments rt w [x]))"
    by (rule processComments_single_not_asked)
next
  assume x: "comment_id x \<noteq> []"
  show "processComments rt w [x]
          = (fst (markCommentsAsRead w [comment_id x])
             @ fst (respondToSelected rt w x [comment_id x]),
             snd (respondToSelected rt w x [comment_id x]))"
    by (rule processComments_single[OF x])
next
  assume l: "length cs > 1"
  show "\<exists>rest. fst (processComments rt w cs)
                  = fst (markCommentsAsRead w (map comment_id cs)) @ ComposeState # rest"
    by (rule processComments_many_composes[OF l])
  {
    assume "w_composeState w = Inr ()"
    with l show "GenerateText aikoSelectCommentTemplate \<in> set (fst (processComments rt w cs))"
      by (rule processComments_many_asked)
  }
  {
    assume "published (fst (processComments rt w cs)) \<noteq> []"
    with l show "\<exists>sel y. w_generateText w aikoSelectCommentTemplate = Inr sel
                \<and> sel \<noteq> ''NONE''
                \<and> find (\<lambda>comment. comment_id comment = sel) cs = Some y"
      by (rule processComments_many_published)
  }
next
  assume a: "length cs > 1 \<and> w_composeState w = Inr ()
        \<and> w_generateText w aikoSelectCommentTemplate = Inr sel
        \<and> (sel = ''NONE'' \<or> sel \<notin> comment_id ` set cs)"
  then have p: "processComments rt w cs
          = (fst (markCommentsAsRead w (map comment_id cs))
             @ [ComposeState, GenerateText aikoSelectCommentTemplate]
             @ (if sel = ''NONE'' \<or> sel = [] then []
                else [ConsoleError ''Selected comment not found:'']),
             Inr (map comment_id cs))"
    using processComments_many_none[of cs w sel rt] by blast
  then show "processComments rt w cs
          = (fst (markCommentsAsRead w (map comment_id cs))
             @ [ComposeState, GenerateText aikoSelectCommentTemplate]
             @ (if sel = ''NONE'' \<or> sel = [] then []
                else [ConsoleError ''Selected comment not found:'']),
             Inr (map comment_id cs))" .
  show "published (fst (processComments rt w cs)) = []"
    by (simp add: p mark_simps published_simps split: http.splits)
next
  assume "length cs > 1 \<and> w_composeState w = Inr ()
        \<and> w_generateText w aikoSelectCommentTemplate = Inr sel
        \<and> sel \<noteq> ''NONE'' \<and> sel \<noteq> []
        \<and> find (\<lambda>comment. comment_id comment = sel) cs = Some y"
  then show "processComments rt w cs
          = (fst (markCommentsAsRead w (map comment_id cs))
             @ [ComposeState, GenerateText aikoSelectCommentTemplate]
             @ fst (respondToSelected rt w y (map comment_id cs)),
             snd (respondToSelected rt w y (map comment_id cs)))"
    using processComments_many_selected[of cs w sel y rt] by blast
qed

theorem comment_selection_witness:
  "comment_id comment1 = ''c1''
   \<and> GenerateText aikoSelectCommentTemplate
       \<notin> set (fst (processComments aiko allSucceed [comment1]))
   \<and> map replyToMessageId (published (fst (processComments aiko allSucceed [comment1])))
       = [Some ''c1'']
   \<and> w_generateText noneSuitable aikoSelectCommentTemplate = Inr ''NONE''
   \<and> GenerateText aikoSelectCommentTemplate
       \<in> set (fst (processComments aiko noneSuitable [comment1, comment2]))
   \<and> processComments aiko noneSuitable [comment1, comment2]
       = ([MarkCommentsAsRead [''c1'', ''c2''], ComposeState,
           GenerateText aikoSelectCommentTemplate], Inr [''c1'', ''c2''])
   \<and> published (fst (processComments aiko noneSuitable [comment1, comment2])) = []
   \<and> w_generateText allSucceed aikoSelectCommentTemplate = Inr ''c2''
   \<and> processComments aiko allSucceed [comment1, comment2]
       = ([MarkCommentsAsRead [''c1'', ''c2''], ComposeState,
           GenerateText aikoSelectCommentTemplate]
          @ fst (respondToSelected aiko allSucceed comment2 [''c1'', ''c2'']),
          snd (respondToSelected aiko allSucceed comment2 [''c1'', ''c2'']))
   \<and> map replyToMessageId
        (published (fst (processComments aiko allSucceed [comment1, comment2])))
       = [Some ''c2'']"
proof -
  have i: "comment_id comment1 = ''c1''" "comment_id comment2 = ''c2''"
    by (simp_all add: comment1_def comment2_def)
  have ne: "comment_id comment1 \<noteq> []" by (simp add: i)
  have l: "length [comment1, comment2] > 1" by simp
  have m1: "fst (markCommentsAsRead noneSuitable [''c1'', ''c2''])
              = [MarkCommentsAsRead [''c1'', ''c2'']]"
    and m2: "fst (markCommentsAsRead allSucceed [''c1'', ''c2''])
              = [MarkCommentsAsRead [''c1'', ''c2'']]"
    by (simp_all add: mark_simps noneSuitable_def allSucceed_def)
  have n: "length [comment1, comment2] > 1 \<and> w_composeState noneSuitable = Inr ()
           \<and> w_generateText noneSuitable aikoSelectCommentTemplate = Inr ''NONE''
           \<and> (''NONE'' = ''NONE'' \<or> ''NONE'' \<notin> comment_id ` set [comment1, comment2])"
    by (simp add: noneSuitable_def allSucceed_def)
  have s: "length [comment1, comment2] > 1 \<and> w_composeState allSucceed = Inr ()
           \<and> w_generateText allSucceed aikoSelectCommentTemplate = Inr ''c2''
           \<and> ''c2'' \<noteq> ''NONE'' \<and> ''c2'' \<noteq> []
           \<and> find (\<lambda>comment. comment_id comment = ''c2'') [comment1, comment2] = Some comment2"
    by (simp add: allSucceed_def i)
  have r: "map replyToMessageId (published (fst (processComments aiko allSucceed [comment1])))
             = [Some ''c1'']"
    by code_simp
  have r2: "map replyToMessageId
        (published (fst (processComments aiko allSucceed [comment1, comment2])))
       = [Some ''c2'']"
    by code_simp
  note T1 = comment_selection[of aiko allSucceed freshClient comment1 "[comment1, comment2]"
      "''c2''" comment2]
  note T2 = comment_selection[of aiko noneSuitable freshClient comment1 "[comment1, comment2]"
      "''NONE''" comment2]
  from T1 have a: "GenerateText aikoSelectCommentTemplate
       \<notin> set (fst (processComments aiko allSucceed [comment1]))" by blast
  from T2 l n have k: "GenerateText aikoSelectCommentTemplate
       \<in> set (fst (processComments aiko noneSuitable [comment1, comment2]))" by blast
  from T2 n have b0: "processComments aiko noneSuitable [comment1, comment2]
          = (fst (markCommentsAsRead noneSuitable (map comment_id [comment1, comment2]))
             @ [ComposeState, GenerateText aikoSelectCommentTemplate]
             @ (if ''NONE'' = ''NONE'' \<or> ''NONE'' = [] then []
                else [ConsoleError ''Selected comment not found:'']),
             Inr (map comment_id [comment1, comment2]))"
    and c: "published (fst (processComments aiko noneSuitable [comment1, comment2])) = []"
    by blast+
  from b0 have b: "processComments aiko noneSuitable [comment1, comment2]
       = ([MarkCommentsAsRead [''c1'', ''c2''], ComposeState,
           GenerateText aikoSelectCommentTemplate], Inr [''c1'', ''c2''])"
    by (simp add: i m1)
  from T1 s have d0: "processComments aiko allSucceed [comment1, comment2]
          = (fst (markCommentsAsRead allSucceed (map comment_id [comment1, comment2]))
             @ [ComposeState, GenerateText aikoSelectCommentTemplate]
             @ fst (respondToSelected aiko allSucceed comment2 (map comment_id [comment1, comment2])),
             snd (respondToSelected aiko allSucceed comment2 (map comment_id [comment1, comment2])))"
    by blast
  then have d: "processComments aiko allSucceed [comment1, comment2]
       = ([MarkCommentsAsRead [''c1'', ''c2''], ComposeState,
           GenerateText aikoSelectCommentTemplate]
          @ fst (respondToSelected aiko allSucceed comment2 [''c1'', ''c2'']),
          snd (respondToSelected aiko allSucceed comment2 [''c1'', ''c2'']))"
    by (simp add: i m2)
  have g1: "w_generateText noneSuitable aikoSelectCommentTemplate = Inr ''NONE''"
    using n by blast
  have g2: "w_generateText allSucceed aikoSelectCommentTemplate = Inr ''c2''"
    using s by blast
  show ?thesis
    using i(1) a r g1 k b c g2 d r2 by blast
qed

text \<open>The test of the selected id, written for the \<open>null\<close> that the selection returns,
  would also drop a single comment whose id were the empty string.\<close>

lemma single_comment_with_empty_id:
  "comment_id unnamedComment = []
   \<and> processComments aiko allSucceed [unnamedComment] = ([MarkCommentsAsRead [[]]], Inr [[]])"
  by code_simp

subsection \<open>C8: speech for the special gift\<close>

text \<open>
  Claim C8 (special-gift speech). For a gift named \<open>Ice Cream\<close> the value of
  \<open>shouldTranscribe\<close> is true whatever the random draw, and the whole of
  \<open>processGift\<close> does not depend on the draw; once the generated response has been
  parsed, speech synthesis is requested for its text; and every response that is
  published carries, as its audio URL, the URL that the synthesis returned.
\<close>

theorem special_gift_speech:
  "giftName gift = ''Ice Cream'' \<longrightarrow>
     truthy (shouldTranscribe w gift)
     \<and> processGift rt (w\<lparr>w_random := r\<rparr>) gift = processGift rt w gift
     \<and> (w_composeState w = Inr () \<and> w_generateText w aikoGiftResponseTemplate = Inr s
          \<and> w_parseJSONObjectFromText w s = Some p \<longrightarrow>
            GenerateSpeech (parsed_text p) \<in> set (fst (processGift rt w gift)))
     \<and> (\<forall>b\<in>set (published (fst (processGift rt w gift))).
          \<exists>s p url. w_generateText w aikoGiftResponseTemplate = Inr s
            \<and> w_parseJSONObjectFromText w s = Some p
            \<and> w_generateSpeech w (parsed_text p) = Uploaded url
            \<and> GenerateSpeech (parsed_text p) \<in> set (fst (processGift rt w gift))
            \<and> audioUrl b = Some url)"
proof (intro impI conjI ballI)
  assume g: "giftName gift = ''Ice Cream''"
  show "truthy (shouldTranscribe w gift)" by (rule iceCream_truthy[OF g])
  show "processGift rt (w\<lparr>w_random := r\<rparr>) gift = processGift rt w gift"
    by (rule iceCream_draw[OF g])
  {
    assume "w_composeState w = Inr () \<and> w_generateText w aikoGiftResponseTemplate = Inr s
          \<and> w_parseJSONObjectFromText w s = Some p"
    then show "GenerateSpeech (parsed_text p) \<in> set (fst (processGift rt w gift))"
      using iceCream_spoken[OF g] by blast
  }
  fix b assume "b \<in> set (published (fst (processGift rt w gift)))"
  from iceCream_published[OF g this]
  show "\<exists>s p url. w_generateText w aikoGiftResponseTemplate = Inr s
            \<and> w_parseJSONObjectFromText w s = Some p
            \<and> w_generateSpeech w (parsed_text p) = Uploaded url
            \<and> GenerateSpeech (parsed_text p) \<in> set (fst (processGift rt w gift))
            \<and> audioUrl b = Some url" .
qed

theorem special_gift_speech_witness:
  "giftName iceCream = ''Ice Cream''
   \<and> truthy (shouldTranscribe allSucceed iceCream)
   \<and> w_random allSucceed 0 = 0.75
   \<and> processGift aiko (allSucceed\<lparr>w_random := (\<lambda>k. 0.25)\<rparr>) iceCream = processGift aiko allSucceed iceCream
   \<and> GenerateSpeech (Some ''thanks'') \<in> set (fst (processGift aiko allSucceed iceCream))
   \<and> map audioUrl (published (fst (processGift aiko allSucceed iceCream)))
        = [Some ''https://aikotv.b-cdn.net/agent-1.mp3'']
   \<and> map audioUrl (published (fst (processGift aiko allSucceed rose))) = [None]"
proof -
  have g: "giftName iceCream = ''Ice Cream''" by (simp add: iceCream_def)
  have c: "w_composeState allSucceed = Inr ()
           \<and> w_generateText allSucceed aikoGiftResponseTemplate = Inr ''thanks''
           \<and> w_parseJSONObjectFromText allSucceed ''thanks''
               = Some \<lparr>parsed_text = Some ''thanks'', parsed_animation = Some ''laughing''\<rparr>"
    by (simp add: allSucceed_def)
  have r: "w_random allSucceed 0 = 0.75" by (simp add: allSucceed_def)
  have p: "map audioUrl (published (fst (processGift aiko allSucceed iceCream)))
             = [Some ''https://aikotv.b-cdn.net/agent-1.mp3'']"
    by (simp add: processGift_def shouldTranscribe_def truthy_def generateSpeech_def
        mark_simps giftBody_def emptyResponse_def io_simps published_simps input_defs)
  have q: "map audioUrl (published (fst (processGift aiko allSucceed rose))) = [None]"
    by (simp add: processGift_def shouldTranscribe_def truthy_def generateSpeech_def
        mark_simps giftBody_def emptyResponse_def io_simps published_simps input_defs)
  note T = special_gift_speech[of iceCream allSucceed aiko "\<lambda>k. 0.25" "''thanks''"
      "\<lparr>parsed_text = Some ''thanks'', parsed_animation = Some ''laughing''\<rparr>"]
  from T g c have "truthy (shouldTranscribe allSucceed iceCream)"
    and "processGift aiko (allSucceed\<lparr>w_random := (\<lambda>k. 0.25)\<rparr>) iceCream = processGift aiko allSucceed iceCream"
    and "GenerateSpeech (Some ''thanks'') \<in> set (fst (processGift aiko allSucceed iceCream))"
    by simp_all
  with g r p q show ?thesis by simp
qed

subsection \<open>C9: validation of the animation\<close>

text \<open>
  Claim C9 (animation validation). The periodic-animation job never throws and every
  animation it posts is in the catalog. When the Generation Service has returned a
  string, the job trims it, lowercases it and looks it up in the catalog: if it is there,
  the job posts the cleaned string (and logs an error if the post fails); if it is not,
  the job posts nothing and its only further effect is one warning.
\<close>

theorem animation_validation:
  "snd (generateAndSharePeriodicAnimation rt w) = Inr ()
   \<and> (\<forall>a. PostUpdateAnimation a \<in> set (fst (generateAndSharePeriodicAnimation rt w))
          \<longrightarrow> a \<in> set getAllAnimations)
   \<and> (w_composeState w = Inr () \<and> w_generateText w aikoAnimationTemplate = Inr s \<longrightarrow>
        fst (generateAndSharePeriodicAnimation rt w) =
          (if toLowerCase (trim s) \<in> set getAllAnimations
           then ComposeState # GenerateText aikoAnimationTemplate
                  # PostUpdateAnimation (toLowerCase (trim s))
                  # (case w_postUpdateAnimation w of
                       Unreachable e \<Rightarrow> [ConsoleError ''Error in generateAndSharePeriodicAnimation:'']
                     | Reply st b \<Rightarrow>
                         if ok st then [] else [ConsoleError ''Failed to post periodic animation:''])
           else [ComposeState, GenerateText aikoAnimationTemplate,
                 ConsoleWarn (''Invalid animation generated: '' @ toLowerCase (trim s)
                              @ '', defaulting to '' @ [CHR 0x27] @ ''idle'' @ [CHR 0x27])]))"
  using animation_job_returns animation_published_in_catalog animation_job_trace
  by blast

theorem animation_validation_witness:
  "w_generateText flyingGenerated aikoAnimationTemplate = Inr ''flying''
   \<and> ''flying'' \<notin> set getAllAnimations
   \<and> generateAndSharePeriodicAnimation aiko flyingGenerated =
       ([ComposeState, GenerateText aikoAnimationTemplate,
         ConsoleWarn (''Invalid animation generated: flying, defaulting to '' @ [CHR 0x27] @ ''idle'' @ [CHR 0x27])],
        Inr ())
   \<and> w_generateText allSucceed aikoAnimationTemplate = Inr '' Floating ''
   \<and> generateAndSharePeriodicAnimation aiko allSucceed =
       ([ComposeState, GenerateText aikoAnimationTemplate, PostUpdateAnimation ''floating''],
        Inr ())"
proof -
  have a: "w_composeState flyingGenerated = Inr ()
           \<and> w_generateText flyingGenerated aikoAnimationTemplate = Inr ''flying''"
    by (simp add: flyingGenerated_def allSucceed_def)
  have b: "toLowerCase (trim ''flying'') = ''flying''" by code_simp
  have c: "''flying'' \<notin> set getAllAnimations" by code_simp
  have d: "w_composeState allSucceed = Inr ()
           \<and> w_generateText allSucceed aikoAnimationTemplate = Inr '' Floating ''
           \<and> w_postUpdateAnimation allSucceed = Reply 200 ()"
    by (simp add: allSucceed_def)
  have e: "toLowerCase (trim '' Floating '') = ''floating''" by code_simp
  have f: "''floating'' \<in> set getAllAnimations" by code_simp
  note T1 = animation_validation[of aiko flyingGenerated "''flying''"]
  note T2 = animation_validation[of aiko allSucceed "'' Floating ''"]
  have "generateAndSharePeriodicAnimation aiko flyingGenerated =
       ([ComposeState, GenerateText aikoAnimationTemplate,
         ConsoleWarn (''Invalid animation generated: flying, defaulting to '' @ [CHR 0x27] @ ''idle'' @ [CHR 0x27])],
        Inr ())"
    using T1 a b c by (simp add: prod_eq_iff)
  moreover have "generateAndSharePeriodicAnimation aiko allSucceed =
       ([ComposeState, GenerateText aikoAnimationTemplate, PostUpdateAnimation ''floating''],
        Inr ())"
    using T2 d e f by (simp add: prod_eq_iff ok_def)
  ultimately show ?thesis using a c d by simp
qed

subsection \<open>C10: the loop over the batch\<close>

text \<open>
  Claim C10 (the loop over the batch creates no memory). In \<open>processComments\<close> the
  callback mapped over the batch reads \<open>userMessage\<close> before its declaration has been
  executed, so for every comment it throws a \<open>ReferenceError\<close> before it reaches the
  memory store; \<open>Promise.allSettled\<close> collects the rejections and performs no effect.
  The memories that a call of \<open>processComments\<close> hands to the store are therefore none,
  or the single memory built later for the selected comment.
\<close>

theorem batch_loop_creates_no_memory:
  "createCommentMemory w scopeBeforeSelection comment
     = ([], Inl (ReferenceError ''Cannot access userMessage before initialization''))
   \<and> allSettled (map (createCommentMemory w scopeBeforeSelection) comments)
     = ([], Inr (replicate (length comments)
                   (Inl (ReferenceError ''Cannot access userMessage before initialization''))))
   \<and> memories (fst (allSettled (map (createCommentMemory w scopeBeforeSelection) comments))) = []
   \<and> (memories (fst (processComments rt w comments)) = []
      \<or> (\<exists>c\<in>set comments.
           memories (fst (processComments rt w comments))
             = [\<lparr>memory_user = comment_user c, memory_text = comment_message c\<rparr>]
           \<and> find (\<lambda>x. comment_id x = comment_id c) comments = Some c
           \<and> comment_id c \<noteq> []))"
  using createCommentMemory_throws[of w comment] allSettled_loop[of w comments]
    processComments_memories[of rt w comments]
  by (simp add: memories_simps)

end
